theory Spec2Isabelle
  imports Complex_Main
begin

section \<open>Cell values\<close>

text \<open>
  A cell of a pandas table holds a Python object. The validator looks at an object only
  through \<open>isinstance\<close>, \<open>isnull\<close>, \<open>str\<close>, \<open>int\<close>, \<open>float\<close> and \<open>is_integer\<close>, so a
  value is one of the variants below. A Python \<open>float\<close> is a finite number, an infinity or
  NaN; the finite ones are modelled by the rationals (every finite double is a rational).
  A string is a list of characters with code points below 256.
\<close>

datatype pyfloat = Fin rat | PosInf | NegInf | NaN

datatype pyval =
    PyNone
  | PyBool bool
  | PyInt int
  | PyFloat pyfloat
  | PyStr string
  | NpInt int
  | NpFloat pyfloat
  | NpBool bool
  | NpComplex
  | PyOther string string

text \<open>
  \<open>NpInt\<close>, \<open>NpFloat\<close> and \<open>NpBool\<close> are the numpy scalars (\<open>numpy.int64\<close>, \<open>numpy.float64\<close>,
  \<open>numpy.bool_\<close>). \<open>NpComplex\<close> is a numpy complex scalar (\<open>numpy.complex128\<close>) other than
  NaN: a \<open>numpy.number\<close> that is neither an integer nor a floating value. \<open>PyOther cls txt\<close>
  is an object of any other class (a date or a Python \<open>complex\<close>, say), with the name of its
  class and the text \<open>str\<close> returns for it.

  The classes the source names in its \<open>isinstance\<close> tests, and the ones among them each
  value is an instance of: \<open>bool\<close> is a subclass of \<open>int\<close>; \<open>numpy.float64\<close> is a subclass of
  \<open>float\<close> and of \<open>numpy.floating\<close>; \<open>numpy.integer\<close>, \<open>numpy.floating\<close> and the complex
  scalars are subclasses of \<open>numpy.number\<close>; \<open>numpy.bool_\<close> is a subclass of none of the
  others.
\<close>

datatype pyclass =
  C_int | C_float | C_str | C_bool | C_np_integer | C_np_floating | C_np_number | C_np_bool

fun classes_of :: "pyval \<Rightarrow> pyclass list" where
  "classes_of PyNone = []"
| "classes_of (PyBool b) = [C_bool, C_int]"
| "classes_of (PyInt i) = [C_int]"
| "classes_of (PyFloat f) = [C_float]"
| "classes_of (PyStr s) = [C_str]"
| "classes_of (NpInt i) = [C_np_integer, C_np_number]"
| "classes_of (NpFloat f) = [C_np_floating, C_np_number, C_float]"
| "classes_of (NpBool b) = [C_np_bool]"
| "classes_of NpComplex = [C_np_number]"
| "classes_of (PyOther cls txt) = []"

definition isinstance :: "pyval \<Rightarrow> pyclass list \<Rightarrow> bool" where
  "isinstance v cs = (\<exists>c \<in> set cs. c \<in> set (classes_of v))"

text \<open>
  \<open>type(value).__name__\<close>, used in the message of a type error. The names of the numpy
  classes are those of numpy 1.x (numpy 2 names the boolean class \<open>bool\<close>).
\<close>

fun type_name :: "pyval \<Rightarrow> string" where
  "type_name PyNone = ''NoneType''"
| "type_name (PyBool b) = ''bool''"
| "type_name (PyInt i) = ''int''"
| "type_name (PyFloat f) = ''float''"
| "type_name (PyStr s) = ''str''"
| "type_name (NpInt i) = ''int64''"
| "type_name (NpFloat f) = ''float64''"
| "type_name (NpBool b) = ''bool_''"
| "type_name NpComplex = ''complex128''"
| "type_name (PyOther cls txt) = cls"

text \<open>
  \<open>float.is_integer\<close>: true for a finite float with no fractional part. The source calls it
  only after \<open>isinstance(value, (float, np.floating))\<close>, and reads a string only after
  \<open>isinstance(value, str)\<close>: \<open>float_of\<close> and \<open>str_of\<close> take the payload out of such a value.
\<close>

fun float_is_integer :: "pyfloat \<Rightarrow> bool" where
  "float_is_integer (Fin r) = (of_int \<lfloor>r\<rfloor> = r)"
| "float_is_integer PosInf = False"
| "float_is_integer NegInf = False"
| "float_is_integer NaN = False"

fun float_of :: "pyval \<Rightarrow> pyfloat" where
  "float_of (PyFloat f) = f"
| "float_of (NpFloat f) = f"
| "float_of v = NaN"

fun str_of :: "pyval \<Rightarrow> string" where
  "str_of (PyStr s) = s"
| "str_of v = []"

section \<open>Parsing numbers from text\<close>

text \<open>
  \<open>str.strip()\<close> removes the whitespace characters at both ends. Below code point 256 the
  whitespace characters of Python are 9 to 13, 28 to 32, 133 and 160.
\<close>

definition py_isspace :: "char \<Rightarrow> bool" where
  "py_isspace c = (c \<in> set [CHR 0x09, CHR 0x0A, CHR 0x0B, CHR 0x0C, CHR 0x0D,
     CHR 0x1C, CHR 0x1D, CHR 0x1E, CHR 0x1F, CHR 0x20, CHR 0x85, CHR 0xA0])"

definition strip :: "string \<Rightarrow> string" where
  "strip s = rev (dropWhile py_isspace (rev (dropWhile py_isspace s)))"

text \<open>
  \<open>int(s)\<close> and \<open>float(s)\<close> skip whitespace at both ends too, but a smaller set: below code
  point 256 the characters 9 to 13, 32, 133 and 160, and not the separators 28 to 31.
\<close>

definition num_isspace :: "char \<Rightarrow> bool" where
  "num_isspace c = (c \<in> set [CHR 0x09, CHR 0x0A, CHR 0x0B, CHR 0x0C, CHR 0x0D,
     CHR 0x20, CHR 0x85, CHR 0xA0])"

definition num_strip :: "string \<Rightarrow> string" where
  "num_strip s = rev (dropWhile num_isspace (rev (dropWhile num_isspace s)))"

definition is_digit :: "char \<Rightarrow> bool" where
  "is_digit c = (c \<in> set ''0123456789'')"

definition is_sign :: "char \<Rightarrow> bool" where
  "is_sign c = (c = CHR ''+'' \<or> c = CHR ''-'')"

text \<open>
  \<open>int(s)\<close> for a string: surrounding whitespace is dropped, one sign may come first, then
  decimal digits, where a single underscore may stand between two digits. Anything else
  raises \<open>ValueError\<close>: the result \<open>None\<close>. So does a text with more digits than
  \<open>max_str_digits\<close>, the limit of Python 3.11 and later (4300 unless configured).
\<close>

fun int_digits :: "string \<Rightarrow> bool" where
  "int_digits [] = False"
| "int_digits [c] = is_digit c"
| "int_digits (c # d # cs) =
     (is_digit c \<and> (if d = CHR ''_'' then int_digits cs else int_digits (d # cs)))"

definition digit_value :: "char \<Rightarrow> int" where
  "digit_value c = int (of_char c) - 48"

definition decimal_value :: "string \<Rightarrow> int" where
  "decimal_value ds = foldl (\<lambda>a c. 10 * a + digit_value c) 0 (filter (\<lambda>c. c \<noteq> CHR ''_'') ds)"

definition max_str_digits :: nat where
  "max_str_digits = 4300"

definition py_int :: "string \<Rightarrow> int option" where
  "py_int s =
     (case num_strip s of
        [] \<Rightarrow> None
      | c # cs \<Rightarrow>
          (let body = (if is_sign c then cs else c # cs) in
           if int_digits body \<and> length (filter is_digit body) \<le> max_str_digits
           then Some ((if c = CHR ''-'' then - 1 else 1) * decimal_value body)
           else None))"

text \<open>
  \<open>float(s)\<close> for a string: surrounding whitespace is dropped; an underscore is allowed
  only between two digits, and is removed; then one sign may come first, followed by
  \<open>inf\<close>, \<open>infinity\<close> or \<open>nan\<close> in any letter case, or by a decimal number: digits with an
  optional point, at least one digit before or after it, and an optional exponent (\<open>e\<close> or
  \<open>E\<close>, an optional sign, at least one digit). The caller discards the number, so the
  model returns only whether \<open>float\<close> returns (\<open>Some ()\<close>) or raises \<open>ValueError\<close> (\<open>None\<close>).
\<close>

fun underscores_ok :: "char \<Rightarrow> string \<Rightarrow> bool" where
  "underscores_ok prev [] = (prev \<noteq> CHR ''_'')"
| "underscores_ok prev (c # cs) =
     (if c = CHR ''_'' then is_digit prev \<and> underscores_ok c cs
      else if prev = CHR ''_'' then is_digit c \<and> underscores_ok c cs
      else underscores_ok c cs)"

fun ci_match :: "string \<Rightarrow> string \<Rightarrow> string \<Rightarrow> bool" where
  "ci_match [] [] [] = True"
| "ci_match (c # cs) (l # ls) (u # us) = ((c = l \<or> c = u) \<and> ci_match cs ls us)"
| "ci_match cs ls us = False"

definition inf_or_nan :: "string \<Rightarrow> bool" where
  "inf_or_nan s = (ci_match s ''inf'' ''INF'' \<or> ci_match s ''infinity'' ''INFINITY''
     \<or> ci_match s ''nan'' ''NAN'')"

definition exponent_ok :: "string \<Rightarrow> bool" where
  "exponent_ok s =
     (case s of
        [] \<Rightarrow> True
      | e # r \<Rightarrow>
          (e = CHR ''e'' \<or> e = CHR ''E'') \<and>
          (let ds = (case r of [] \<Rightarrow> [] | c # cs \<Rightarrow> if is_sign c then cs else c # cs)
           in ds \<noteq> [] \<and> list_all is_digit ds))"

definition decimal_ok :: "string \<Rightarrow> bool" where
  "decimal_ok s =
     (let ip = takeWhile is_digit s;
          r1 = dropWhile is_digit s;
          fp = (case r1 of [] \<Rightarrow> [] | c # cs \<Rightarrow> if c = CHR ''.'' then takeWhile is_digit cs else []);
          r2 = (case r1 of [] \<Rightarrow> [] | c # cs \<Rightarrow> if c = CHR ''.'' then dropWhile is_digit cs else r1)
      in (ip \<noteq> [] \<or> fp \<noteq> []) \<and> exponent_ok r2)"

definition py_float :: "string \<Rightarrow> unit option" where
  "py_float s =
     (let t = num_strip s in
      if \<not> underscores_ok (CHR 0x00) t then None
      else
        (let u = filter (\<lambda>c. c \<noteq> CHR ''_'') t;
             body = (case u of [] \<Rightarrow> [] | c # cs \<Rightarrow> if is_sign c then cs else c # cs)
         in if inf_or_nan body \<or> decimal_ok body then Some () else None))"

section \<open>The type predicate\<close>

text \<open>
  \<open>DataValidator._check_data_type\<close>. The body of the \<open>try\<close> block returns a boolean, or
  raises the \<open>ValueError\<close> of \<open>int\<close> or \<open>float\<close> (the result \<open>None\<close>); the clause
  \<open>except (ValueError, TypeError)\<close> turns that into \<open>False\<close>. The second component is the
  list of lines written to the logger.
\<close>

definition check_body :: "pyval \<Rightarrow> string \<Rightarrow> bool option \<times> string list" where
  "check_body v expected_type =
     (if expected_type = ''int'' then
        (if isinstance v [C_int, C_np_integer] then Some True
         else if isinstance v [C_float, C_np_floating] then Some (float_is_integer (float_of v))
         else if isinstance v [C_str] then
           (case py_int (str_of v) of None \<Rightarrow> None | Some n \<Rightarrow> Some True)
         else Some False, [])
      else if expected_type = ''float'' then
        (if isinstance v [C_int, C_float, C_np_number] then Some True
         else if isinstance v [C_str] then
           (case py_float (str_of v) of None \<Rightarrow> None | Some u \<Rightarrow> Some True)
         else Some False, [])
      else if expected_type = ''str'' then (Some (isinstance v [C_str]), [])
      else if expected_type = ''bool'' then (Some (isinstance v [C_bool, C_np_bool]), [])
      else (Some True, [''Unknown data type: '' @ expected_type]))"

definition check_data_type :: "pyval \<Rightarrow> string \<Rightarrow> bool \<times> string list" where
  "check_data_type v expected_type =
     (case check_body v expected_type of
        (Some b, logged) \<Rightarrow> (b, logged)
      | (None, logged) \<Rightarrow> (False, logged))"

section \<open>Validation results\<close>

text \<open>
  \<open>ValidationEntry\<close> and \<open>ValidationResult\<close> of \<open>validation_result.py\<close>. A row is a position in
  the table, counted from 0; \<open>val\<close> is the field \<open>value\<close> of the source.
\<close>

record validation_entry =
  message :: string
  column :: string
  row :: "nat option"
  severity :: string
  val :: "pyval option"

record validation_result =
  source_file :: string
  errors :: "validation_entry list"
  warnings :: "validation_entry list"
  passed :: "validation_entry list"

definition new_result :: "string \<Rightarrow> validation_result" where
  "new_result src = \<lparr>source_file = src, errors = [], warnings = [], passed = []\<rparr>"

abbreviation error_entry :: "string \<Rightarrow> string \<Rightarrow> nat option \<Rightarrow> pyval option \<Rightarrow> validation_entry" where
  "error_entry msg col r v \<equiv>
     \<lparr>message = msg, column = col, row = r, severity = ''error'', val = v\<rparr>"

abbreviation warning_entry :: "string \<Rightarrow> string \<Rightarrow> nat option \<Rightarrow> pyval option \<Rightarrow> validation_entry" where
  "warning_entry msg col r v \<equiv>
     \<lparr>message = msg, column = col, row = r, severity = ''warning'', val = v\<rparr>"

abbreviation passed_entry :: "string \<Rightarrow> string \<Rightarrow> nat option \<Rightarrow> validation_entry" where
  "passed_entry msg col r \<equiv>
     \<lparr>message = msg, column = col, row = r, severity = ''passed'', val = None\<rparr>"

definition add_error ::
  "string \<Rightarrow> string \<Rightarrow> nat option \<Rightarrow> pyval option \<Rightarrow> validation_result \<Rightarrow> validation_result" where
  "add_error msg col r v result = result\<lparr>errors := errors result @ [error_entry msg col r v]\<rparr>"

definition add_warning ::
  "string \<Rightarrow> string \<Rightarrow> nat option \<Rightarrow> pyval option \<Rightarrow> validation_result \<Rightarrow> validation_result" where
  "add_warning msg col r v result =
     result\<lparr>warnings := warnings result @ [warning_entry msg col r v]\<rparr>"

definition add_passed ::
  "string \<Rightarrow> string \<Rightarrow> nat option \<Rightarrow> validation_result \<Rightarrow> validation_result" where
  "add_passed msg col r result = result\<lparr>passed := passed result @ [passed_entry msg col r]\<rparr>"

text \<open>
  \<open>result.errors.extend(other.errors)\<close> and the same for warnings and passed: how
  \<open>validate_file\<close> merges the result of a pass into its own.
\<close>

definition extend_result :: "validation_result \<Rightarrow> validation_result \<Rightarrow> validation_result" where
  "extend_result result other =
     result\<lparr>errors := errors result @ errors other,
            warnings := warnings result @ warnings other,
            passed := passed result @ passed other\<rparr>"

section \<open>Tables\<close>

text \<open>
  A pandas \<open>DataFrame\<close> is a list of columns in the table's order. A column has its label,
  the name of its dtype (\<open>object\<close> for a column of text or of mixed values) and its cells,
  one for each row. The rows are labelled by position (the \<open>RangeIndex\<close> that \<open>read_csv\<close>
  and \<open>read_excel\<close> give a table). A table is well formed when the labels are distinct and
  all columns have the same number of cells.
\<close>

record series =
  label :: string
  dtype :: string
  cells :: "pyval list"

type_synonym dataframe = "series list"

definition df_columns :: "dataframe \<Rightarrow> string list" where
  "df_columns df = map label df"

definition len_df :: "dataframe \<Rightarrow> nat" where
  "len_df df = (case df of [] \<Rightarrow> 0 | c # cs \<Rightarrow> length (cells c))"

definition df_empty :: "dataframe \<Rightarrow> bool" where
  "df_empty df = (df = [] \<or> len_df df = 0)"

definition wf_df :: "dataframe \<Rightarrow> bool" where
  "wf_df df = (distinct (df_columns df) \<and> list_all (\<lambda>c. length (cells c) = len_df df) df)"

definition df_get :: "dataframe \<Rightarrow> string \<Rightarrow> series option" where
  "df_get df col = find (\<lambda>c. label c = col) df"

text \<open>
  \<open>isnull\<close> holds for \<open>None\<close> and for NaN (the other null markers of pandas, \<open>NaT\<close> and
  \<open>NA\<close>, are not among the values modelled). \<open>items\<close> pairs each cell with its row, as
  \<open>Series.items()\<close> does; \<open>dropna\<close> keeps the pairs whose cell is not null.
\<close>

fun isnull :: "pyval \<Rightarrow> bool" where
  "isnull PyNone = True"
| "isnull (PyFloat f) = (f = NaN)"
| "isnull (NpFloat f) = (f = NaN)"
| "isnull v = False"

definition items :: "series \<Rightarrow> (nat \<times> pyval) list" where
  "items c = enumerate 0 (cells c)"

definition dropna :: "series \<Rightarrow> (nat \<times> pyval) list" where
  "dropna c = filter (\<lambda>iv. \<not> isnull (snd iv)) (items c)"

text \<open>
  \<open>astype(str).str.strip() == ''\<close> for one cell: whether the text of the value is blank.
  The text of \<open>None\<close>, of a boolean and of a number is never blank.
\<close>

fun str_is_blank :: "pyval \<Rightarrow> bool" where
  "str_is_blank (PyStr s) = (strip s = [])"
| "str_is_blank (PyOther cls txt) = (strip txt = [])"
| "str_is_blank v = False"

text \<open>\<open>str(n)\<close> for an integer: its decimal digits.\<close>

function str_nat :: "nat \<Rightarrow> string" where
  "str_nat n =
     (if n < 10 then [char_of (48 + n)] else str_nat (n div 10) @ [char_of (48 + n mod 10)])"
  by pat_completeness auto
termination
  by (relation "measure id") auto

declare str_nat.simps [simp del]

definition str_int :: "int \<Rightarrow> string" where
  "str_int i = (if i < 0 then CHR ''-'' # str_nat (nat (- i)) else str_nat (nat i))"

section \<open>The missing-value check\<close>

text \<open>
  \<open>DataValidator.detect_missing_values\<close>. \<open>null_indices\<close> and \<open>empty_indices\<close> are the lists of
  the same names in the source: the rows of the null cells, and (in a column of dtype
  \<open>object\<close> only) the rows of the cells that are blank and not null. \<open>missing_in_column\<close> is
  the body of the loop over the columns; the source loops over the labels and reads
  \<open>df[column]\<close>, which is the column of that label when the labels are distinct.
\<close>

definition null_indices :: "series \<Rightarrow> nat list" where
  "null_indices c = map fst (filter (\<lambda>iv. isnull (snd iv)) (items c))"

definition empty_indices :: "series \<Rightarrow> nat list" where
  "empty_indices c =
     (if dtype c = ''object''
      then map fst (filter (\<lambda>iv. str_is_blank (snd iv) \<and> \<not> isnull (snd iv)) (items c))
      else [])"

definition missing_in_column :: "nat \<Rightarrow> validation_result \<Rightarrow> series \<Rightarrow> validation_result" where
  "missing_in_column n result c =
     (let r1 = foldl (\<lambda>r idx. add_error ''Missing value (null/NaN)'' (label c) (Some idx) None r)
                 result (null_indices c);
          r2 = foldl (\<lambda>r idx. add_error ''Missing value (empty string)'' (label c) (Some idx) None r)
                 r1 (empty_indices c);
          valid_count = int n - int (length (null_indices c)) - int (length (empty_indices c))
      in if valid_count > 0
         then add_passed (str_int valid_count @ '' valid values'') (label c) None r2
         else r2)"

definition detect_missing_values :: "dataframe \<Rightarrow> validation_result" where
  "detect_missing_values df =
     (if df_empty df then add_warning ''Empty dataframe provided'' [] None None (new_result [])
      else foldl (missing_in_column (len_df df)) (new_result []) df)"

section \<open>The type-conformance check\<close>

text \<open>
  \<open>DataValidator.validate_data_types\<close>. The rules are a Python dict, which iterates in
  insertion order: an association list. \<open>check_cell\<close> is the body of the loop over the cells
  of a column, \<open>check_rule\<close> the body of the loop over the rules. The state is the result
  and the lines logged so far.
\<close>

definition check_cell ::
  "string \<Rightarrow> string \<Rightarrow> validation_result \<times> string list \<Rightarrow> nat \<times> pyval
     \<Rightarrow> validation_result \<times> string list" where
  "check_cell col expected_type st iv =
     (let is_valid = fst (check_data_type (snd iv) expected_type);
          logged = snd (check_data_type (snd iv) expected_type)
      in (if \<not> is_valid
          then add_error (''Invalid data type. Expected '' @ expected_type @ '', got ''
                 @ type_name (snd iv)) col (Some (fst iv)) (Some (snd iv)) (fst st)
          else add_passed (''Valid '' @ expected_type @ '' value'') col (Some (fst iv)) (fst st),
          snd st @ logged))"

definition check_rule ::
  "dataframe \<Rightarrow> validation_result \<times> string list \<Rightarrow> string \<times> string
     \<Rightarrow> validation_result \<times> string list" where
  "check_rule df st rule =
     (case df_get df (fst rule) of
        None \<Rightarrow> (add_error ''Column not found in data'' (fst rule) None None (fst st), snd st)
      | Some c \<Rightarrow>
          (let col_data = dropna c in
           if col_data = []
           then (add_warning ''Column contains only missing values'' (fst rule) None None (fst st),
                 snd st)
           else foldl (check_cell (fst rule) (snd rule)) st col_data))"

definition validate_data_types ::
  "dataframe \<Rightarrow> (string \<times> string) list \<Rightarrow> validation_result \<times> string list" where
  "validate_data_types df type_rules = foldl (check_rule df) (new_result [], []) type_rules"

section \<open>The required-column check\<close>

text \<open>
  \<open>DataValidator._validate_required_columns\<close>. The missing columns are a Python set, the
  difference of two sets; Python iterates a set in an order the program does not choose.
  The order is the parameter \<open>order\<close>: it is given the elements of the set, each once, and
  returns them in the order of the iteration.
\<close>

definition validate_required_columns ::
  "(string list \<Rightarrow> string list) \<Rightarrow> dataframe \<Rightarrow> string list \<Rightarrow> validation_result
     \<Rightarrow> validation_result" where
  "validate_required_columns order df required result =
     (let missing_columns =
            order (remdups (filter (\<lambda>c. c \<notin> set (df_columns df)) required));
          r1 = foldl (\<lambda>r c. add_error ''Required column missing'' c None None r)
                 result missing_columns
      in foldl (\<lambda>r c. if c \<in> set (df_columns df)
                       then add_passed ''Required column present'' c None r else r)
           r1 required)"

section \<open>Validating a file\<close>

text \<open>
  \<open>DataValidator.validate_file\<close>. The file system and the readers of pandas are the
  environment: whether a path exists, and what \<open>read_excel\<close> and \<open>read_csv\<close> return for it,
  a table or the text of the exception they raise. The rules are a dict with the optional
  keys \<open>required_columns\<close> and \<open>data_types\<close>.
\<close>

record env =
  path_exists :: "string \<Rightarrow> bool"
  read_excel :: "string \<Rightarrow> string + dataframe"
  read_csv :: "string \<Rightarrow> string + dataframe"
  set_order :: "string list \<Rightarrow> string list"

record rules =
  required_columns :: "string list option"
  data_types :: "(string \<times> string) list option"

datatype error = FileNotFoundError string | ValueError string

definition endswith :: "string \<Rightarrow> string \<Rightarrow> bool" where
  "endswith s suffix =
     (length suffix \<le> length s \<and> drop (length s - length suffix) s = suffix)"

text \<open>
  The \<open>try\<close> block that loads the table: every exception raised in it, the one for an
  unsupported extension included, is raised again as a \<open>ValueError\<close>.
\<close>

definition load_table :: "env \<Rightarrow> string \<Rightarrow> error + dataframe" where
  "load_table e file_path =
     (case (if endswith file_path ''.xlsx'' then read_excel e file_path
            else if endswith file_path ''.csv'' then read_csv e file_path
            else Inl (''Unsupported file format: '' @ file_path)) of
        Inl msg \<Rightarrow> Inl (ValueError (''Error reading file '' @ file_path @ '': '' @ msg))
      | Inr df \<Rightarrow> Inr df)"

text \<open>The checks that run on a loaded table, with the lines they log.\<close>

definition run_checks ::
  "env \<Rightarrow> string \<Rightarrow> rules \<Rightarrow> dataframe \<Rightarrow> validation_result \<times> string list" where
  "run_checks e file_path rs df =
     (let result = new_result file_path in
      if df_empty df then (add_warning ''File contains no data'' [] None None result, [])
      else
        (let r1 = (case required_columns rs of
                     None \<Rightarrow> result
                   | Some required \<Rightarrow> validate_required_columns (set_order e) df required result);
             r2 = extend_result r1 (detect_missing_values df)
         in case data_types rs of
              None \<Rightarrow> (r2, [])
            | Some type_rules \<Rightarrow>
                (extend_result r2 (fst (validate_data_types df type_rules)),
                 snd (validate_data_types df type_rules))))"

definition validate_file ::
  "env \<Rightarrow> string \<Rightarrow> rules \<Rightarrow> error + validation_result \<times> string list" where
  "validate_file e file_path rs =
     (if \<not> path_exists e file_path
      then Inl (FileNotFoundError (''File not found: '' @ file_path))
      else case load_table e file_path of
             Inl err \<Rightarrow> Inl err
           | Inr df \<Rightarrow> Inr (run_checks e file_path rs df))"

section \<open>What each loop appends\<close>

text \<open>
  The loops of the source append to the lists of a result. The definitions of this section
  name what one round of a loop appends, so that a result can be described as a
  concatenation: \<open>column_errors\<close> and \<open>column_passed\<close> for one column in the missing-value
  check, \<open>rule_errors\<close>, \<open>rule_warnings\<close>, \<open>rule_passed\<close> and \<open>rule_log\<close> for one rule in the
  type-conformance check. The lemmas \<open>detect_missing_values_eq\<close> and
  \<open>validate_data_types_eq\<close> below prove that the loops compute these concatenations.
\<close>

definition column_errors :: "series \<Rightarrow> validation_entry list" where
  "column_errors c =
     map (\<lambda>i. error_entry ''Missing value (null/NaN)'' (label c) (Some i) None) (null_indices c)
     @ map (\<lambda>i. error_entry ''Missing value (empty string)'' (label c) (Some i) None)
         (empty_indices c)"

definition column_valid_count :: "nat \<Rightarrow> series \<Rightarrow> int" where
  "column_valid_count n c = int n - int (length (null_indices c)) - int (length (empty_indices c))"

definition column_passed :: "nat \<Rightarrow> series \<Rightarrow> validation_entry list" where
  "column_passed n c =
     (if column_valid_count n c > 0
      then [passed_entry (str_int (column_valid_count n c) @ '' valid values'') (label c) None]
      else [])"

definition invalid_entry :: "string \<Rightarrow> string \<Rightarrow> nat \<times> pyval \<Rightarrow> validation_entry" where
  "invalid_entry col expected_type iv =
     error_entry (''Invalid data type. Expected '' @ expected_type @ '', got '' @ type_name (snd iv))
       col (Some (fst iv)) (Some (snd iv))"

definition valid_entry :: "string \<Rightarrow> string \<Rightarrow> nat \<times> pyval \<Rightarrow> validation_entry" where
  "valid_entry col expected_type iv =
     passed_entry (''Valid '' @ expected_type @ '' value'') col (Some (fst iv))"

definition rule_errors :: "dataframe \<Rightarrow> string \<times> string \<Rightarrow> validation_entry list" where
  "rule_errors df rule =
     (case df_get df (fst rule) of
        None \<Rightarrow> [error_entry ''Column not found in data'' (fst rule) None None]
      | Some c \<Rightarrow> map (invalid_entry (fst rule) (snd rule))
          (filter (\<lambda>iv. \<not> fst (check_data_type (snd iv) (snd rule))) (dropna c)))"

definition rule_warnings :: "dataframe \<Rightarrow> string \<times> string \<Rightarrow> validation_entry list" where
  "rule_warnings df rule =
     (case df_get df (fst rule) of
        None \<Rightarrow> []
      | Some c \<Rightarrow>
          if dropna c = []
          then [warning_entry ''Column contains only missing values'' (fst rule) None None]
          else [])"

definition rule_passed :: "dataframe \<Rightarrow> string \<times> string \<Rightarrow> validation_entry list" where
  "rule_passed df rule =
     (case df_get df (fst rule) of
        None \<Rightarrow> []
      | Some c \<Rightarrow> map (valid_entry (fst rule) (snd rule))
          (filter (\<lambda>iv. fst (check_data_type (snd iv) (snd rule))) (dropna c)))"

definition rule_log :: "dataframe \<Rightarrow> string \<times> string \<Rightarrow> string list" where
  "rule_log df rule =
     (case df_get df (fst rule) of
        None \<Rightarrow> []
      | Some c \<Rightarrow> concat (map (\<lambda>iv. snd (check_data_type (snd iv) (snd rule))) (dropna c)))"

text \<open>
  The results of the first and of the third pass of \<open>validate_file\<close>, each on its own: the
  required-column check on a fresh result (nothing when the rules have no
  \<open>required_columns\<close>), and the type-conformance check (nothing when they have no
  \<open>data_types\<close>).
\<close>

definition required_pass :: "env \<Rightarrow> string \<Rightarrow> rules \<Rightarrow> dataframe \<Rightarrow> validation_result" where
  "required_pass e file_path rs df =
     (case required_columns rs of
        None \<Rightarrow> new_result file_path
      | Some required \<Rightarrow>
          validate_required_columns (set_order e) df required (new_result file_path))"

definition type_pass :: "rules \<Rightarrow> dataframe \<Rightarrow> validation_result" where
  "type_pass rs df =
     (case data_types rs of
        None \<Rightarrow> new_result []
      | Some type_rules \<Rightarrow> fst (validate_data_types df type_rules))"

section \<open>The type table of the specification\<close>

text \<open>
  The table of the specification, in its words: \<open>int\<close> accepts a native integer, a floating
  value whose fractional part is exactly zero, or a string that parses as a base-10
  integer; \<open>float\<close> accepts any native numeric value (integer or floating) or a string
  parseable as a floating-point number; \<open>str\<close> accepts a text value; \<open>bool\<close> accepts a
  boolean; any other tag accepts everything. The kinds of value are those of the
  specification (integer, floating, text, boolean), whether the object is Python's or
  numpy's. \<open>spec_accepts\<close> is compared with \<open>check_data_type\<close> below.
\<close>

fun native_integer :: "pyval \<Rightarrow> bool" where
  "native_integer (PyInt i) = True"
| "native_integer (NpInt i) = True"
| "native_integer v = False"

fun native_floating :: "pyval \<Rightarrow> bool" where
  "native_floating (PyFloat f) = True"
| "native_floating (NpFloat f) = True"
| "native_floating v = False"

fun zero_fraction :: "pyfloat \<Rightarrow> bool" where
  "zero_fraction (Fin r) = (frac r = 0)"
| "zero_fraction f = False"

fun text_value :: "pyval \<Rightarrow> bool" where
  "text_value (PyStr s) = True"
| "text_value v = False"

fun boolean_value :: "pyval \<Rightarrow> bool" where
  "boolean_value (PyBool b) = True"
| "boolean_value (NpBool b) = True"
| "boolean_value v = False"

fun python_bool :: "pyval \<Rightarrow> bool" where
  "python_bool (PyBool b) = True"
| "python_bool v = False"

fun numpy_complex :: "pyval \<Rightarrow> bool" where
  "numpy_complex NpComplex = True"
| "numpy_complex v = False"

definition spec_accepts :: "string \<Rightarrow> pyval \<Rightarrow> bool" where
  "spec_accepts expected_type v =
     (if expected_type = ''int'' then
        native_integer v \<or> (native_floating v \<and> zero_fraction (float_of v))
        \<or> (text_value v \<and> py_int (str_of v) \<noteq> None)
      else if expected_type = ''float'' then
        native_integer v \<or> native_floating v \<or> (text_value v \<and> py_float (str_of v) \<noteq> None)
      else if expected_type = ''str'' then text_value v
      else if expected_type = ''bool'' then boolean_value v
      else True)"

lemma add_error_sel [simp]:
  "errors (add_error m c r v res) = errors res @ [error_entry m c r v]"
  "warnings (add_error m c r v res) = warnings res"
  "passed (add_error m c r v res) = passed res"
  "source_file (add_error m c r v res) = source_file res"
  by (simp_all add: add_error_def)

lemma add_warning_sel [simp]:
  "errors (add_warning m c r v res) = errors res"
  "warnings (add_warning m c r v res) = warnings res @ [warning_entry m c r v]"
  "passed (add_warning m c r v res) = passed res"
  "source_file (add_warning m c r v res) = source_file res"
  by (simp_all add: add_warning_def)

lemma add_passed_sel [simp]:
  "errors (add_passed m c r res) = errors res"
  "warnings (add_passed m c r res) = warnings res"
  "passed (add_passed m c r res) = passed res @ [passed_entry m c r]"
  "source_file (add_passed m c r res) = source_file res"
  by (simp_all add: add_passed_def)

lemma new_result_sel [simp]:
  "errors (new_result s) = []" "warnings (new_result s) = []" "passed (new_result s) = []"
  "source_file (new_result s) = s"
  by (simp_all add: new_result_def)

lemma extend_result_sel [simp]:
  "errors (extend_result a b) = errors a @ errors b"
  "warnings (extend_result a b) = warnings a @ warnings b"
  "passed (extend_result a b) = passed a @ passed b"
  "source_file (extend_result a b) = source_file a"
  by (simp_all add: extend_result_def)

lemma foldl_add_error_sel:
  "errors (foldl (\<lambda>r x. add_error m c (f x) v r) res xs)
     = errors res @ map (\<lambda>x. error_entry m c (f x) v) xs"
  "warnings (foldl (\<lambda>r x. add_error m c (f x) v r) res xs) = warnings res"
  "passed (foldl (\<lambda>r x. add_error m c (f x) v r) res xs) = passed res"
  "source_file (foldl (\<lambda>r x. add_error m c (f x) v r) res xs) = source_file res"
  by (induction xs arbitrary: res) simp_all

lemma indices_filter:
  "map fst (filter (\<lambda>iv. P (snd iv)) (enumerate 0 xs)) = filter (\<lambda>i. P (xs ! i)) [0..<length xs]"
proof (induction xs rule: rev_induct)
  case Nil
  show ?case by simp
next
  case (snoc x xs)
  have "filter (\<lambda>i. P ((xs @ [x]) ! i)) [0..<length xs] = filter (\<lambda>i. P (xs ! i)) [0..<length xs]"
    by (rule filter_cong) (simp_all add: nth_append)
  with snoc show ?case
    by (simp add: enumerate_append_eq)
qed

lemma null_indices_upt:
  "null_indices c = filter (\<lambda>i. isnull (cells c ! i)) [0..<length (cells c)]"
  by (simp add: null_indices_def items_def indices_filter)

lemma empty_indices_upt:
  "empty_indices c =
     (if dtype c = ''object''
      then filter (\<lambda>i. str_is_blank (cells c ! i) \<and> \<not> isnull (cells c ! i)) [0..<length (cells c)]
      else [])"
  using indices_filter [of "\<lambda>v. str_is_blank v \<and> \<not> isnull v" "cells c"]
  by (simp add: empty_indices_def items_def)

lemma sorted_null_indices: "sorted_wrt (<) (null_indices c)"
  by (simp add: null_indices_upt sorted_wrt_filter)

lemma sorted_empty_indices: "sorted_wrt (<) (empty_indices c)"
  by (simp add: empty_indices_upt sorted_wrt_filter)

lemma sorted_dropna: "sorted_wrt (<) (map fst (dropna c))"
proof -
  have "sorted_wrt (<) (map fst (items c))"
    by (simp add: items_def)
  then have "sorted_wrt (\<lambda>a b. fst a < fst b) (items c)"
    by (simp add: sorted_wrt_map)
  then have "sorted_wrt (\<lambda>a b. fst a < fst b) (dropna c)"
    unfolding dropna_def by (rule sorted_wrt_filter)
  then show ?thesis
    by (simp add: sorted_wrt_map)
qed

lemma filter_eq_upt: "filter (\<lambda>x. x = i) [0..<n] = (if i < n then [i] else [])"
  by (induction n) auto

lemma filter_eq_filter_upt:
  "filter (\<lambda>x. x = i) (filter P [0..<n]) = (if i < n \<and> P i then [i] else [])"
proof -
  have "filter (\<lambda>x. x = i) (filter P [0..<n]) = filter P (filter (\<lambda>x. x = i) [0..<n])"
    by (simp add: conj_commute)
  then show ?thesis
    by (simp add: filter_eq_upt)
qed

lemma missing_in_column_sel:
  "errors (missing_in_column n res c) = errors res @ column_errors c"
  "warnings (missing_in_column n res c) = warnings res"
  "passed (missing_in_column n res c) = passed res @ column_passed n c"
  "source_file (missing_in_column n res c) = source_file res"
  by (simp_all add: missing_in_column_def Let_def foldl_add_error_sel column_errors_def
      column_passed_def column_valid_count_def)

lemma foldl_missing_sel:
  "errors (foldl (missing_in_column n) res cs) = errors res @ concat (map column_errors cs)"
  "warnings (foldl (missing_in_column n) res cs) = warnings res"
  "passed (foldl (missing_in_column n) res cs) = passed res @ concat (map (column_passed n) cs)"
  "source_file (foldl (missing_in_column n) res cs) = source_file res"
  by (induction cs arbitrary: res) (simp_all add: missing_in_column_sel)

lemma detect_missing_values_eq:
  "\<not> df_empty df \<Longrightarrow> detect_missing_values df =
     \<lparr>source_file = [], errors = concat (map column_errors df), warnings = [],
      passed = concat (map (column_passed (len_df df)) df)\<rparr>"
  by (rule validation_result.equality) (simp_all add: detect_missing_values_def foldl_missing_sel)

lemma check_cell_sel:
  "errors (fst (check_cell col t st iv)) = errors (fst st) @
     (if \<not> fst (check_data_type (snd iv) t) then [invalid_entry col t iv] else [])"
  "warnings (fst (check_cell col t st iv)) = warnings (fst st)"
  "passed (fst (check_cell col t st iv)) = passed (fst st) @
     (if fst (check_data_type (snd iv) t) then [valid_entry col t iv] else [])"
  "source_file (fst (check_cell col t st iv)) = source_file (fst st)"
  "snd (check_cell col t st iv) = snd st @ snd (check_data_type (snd iv) t)"
  by (simp_all add: check_cell_def Let_def invalid_entry_def valid_entry_def)

lemma foldl_check_cell_sel:
  "errors (fst (foldl (check_cell col t) st ivs)) = errors (fst st) @
     map (invalid_entry col t) (filter (\<lambda>iv. \<not> fst (check_data_type (snd iv) t)) ivs)"
  "warnings (fst (foldl (check_cell col t) st ivs)) = warnings (fst st)"
  "passed (fst (foldl (check_cell col t) st ivs)) = passed (fst st) @
     map (valid_entry col t) (filter (\<lambda>iv. fst (check_data_type (snd iv) t)) ivs)"
  "source_file (fst (foldl (check_cell col t) st ivs)) = source_file (fst st)"
  "snd (foldl (check_cell col t) st ivs) = snd st @
     concat (map (\<lambda>iv. snd (check_data_type (snd iv) t)) ivs)"
  by (induction ivs arbitrary: st) (simp_all add: check_cell_sel)

lemma check_rule_sel:
  "errors (fst (check_rule df st rule)) = errors (fst st) @ rule_errors df rule"
  "warnings (fst (check_rule df st rule)) = warnings (fst st) @ rule_warnings df rule"
  "passed (fst (check_rule df st rule)) = passed (fst st) @ rule_passed df rule"
  "source_file (fst (check_rule df st rule)) = source_file (fst st)"
  "snd (check_rule df st rule) = snd st @ rule_log df rule"
  by (simp_all add: check_rule_def Let_def rule_errors_def rule_warnings_def rule_passed_def
      rule_log_def foldl_check_cell_sel split: option.split)

lemma foldl_check_rule_sel:
  "errors (fst (foldl (check_rule df) st rs)) = errors (fst st) @ concat (map (rule_errors df) rs)"
  "warnings (fst (foldl (check_rule df) st rs)) =
     warnings (fst st) @ concat (map (rule_warnings df) rs)"
  "passed (fst (foldl (check_rule df) st rs)) = passed (fst st) @ concat (map (rule_passed df) rs)"
  "source_file (fst (foldl (check_rule df) st rs)) = source_file (fst st)"
  "snd (foldl (check_rule df) st rs) = snd st @ concat (map (rule_log df) rs)"
  by (induction rs arbitrary: st) (simp_all add: check_rule_sel)

lemma validate_data_types_eq:
  "validate_data_types df type_rules =
     (\<lparr>source_file = [], errors = concat (map (rule_errors df) type_rules),
       warnings = concat (map (rule_warnings df) type_rules),
       passed = concat (map (rule_passed df) type_rules)\<rparr>,
      concat (map (rule_log df) type_rules))"
proof (rule prod_eqI)
  show "fst (validate_data_types df type_rules) = fst (\<lparr>source_file = [],
       errors = concat (map (rule_errors df) type_rules),
       warnings = concat (map (rule_warnings df) type_rules),
       passed = concat (map (rule_passed df) type_rules)\<rparr>,
      concat (map (rule_log df) type_rules))"
    by (rule validation_result.equality)
      (simp_all add: validate_data_types_def foldl_check_rule_sel)
  show "snd (validate_data_types df type_rules) = snd (\<lparr>source_file = [],
       errors = concat (map (rule_errors df) type_rules),
       warnings = concat (map (rule_warnings df) type_rules),
       passed = concat (map (rule_passed df) type_rules)\<rparr>,
      concat (map (rule_log df) type_rules))"
    by (simp add: validate_data_types_def foldl_check_rule_sel)
qed

lemma foldl_add_passed_if_sel:
  "errors (foldl (\<lambda>r x. if P x then add_passed m x None r else r) res xs) = errors res"
  "warnings (foldl (\<lambda>r x. if P x then add_passed m x None r else r) res xs) = warnings res"
  "passed (foldl (\<lambda>r x. if P x then add_passed m x None r else r) res xs)
     = passed res @ map (\<lambda>x. passed_entry m x None) (filter P xs)"
  "source_file (foldl (\<lambda>r x. if P x then add_passed m x None r else r) res xs) = source_file res"
  by (induction xs arbitrary: res) simp_all

lemma foldl_add_error_col_sel:
  "errors (foldl (\<lambda>r x. add_error m x None None r) res xs)
     = errors res @ map (\<lambda>x. error_entry m x None None) xs"
  "warnings (foldl (\<lambda>r x. add_error m x None None r) res xs) = warnings res"
  "passed (foldl (\<lambda>r x. add_error m x None None r) res xs) = passed res"
  "source_file (foldl (\<lambda>r x. add_error m x None None r) res xs) = source_file res"
  by (induction xs arbitrary: res) simp_all

lemma validate_required_columns_sel:
  "errors (validate_required_columns order df required res) = errors res @
     map (\<lambda>c. error_entry ''Required column missing'' c None None)
       (order (remdups (filter (\<lambda>c. c \<notin> set (df_columns df)) required)))"
  "warnings (validate_required_columns order df required res) = warnings res"
  "passed (validate_required_columns order df required res) = passed res @
     map (\<lambda>c. passed_entry ''Required column present'' c None)
       (filter (\<lambda>c. c \<in> set (df_columns df)) required)"
  "source_file (validate_required_columns order df required res) = source_file res"
  by (simp_all add: validate_required_columns_def Let_def foldl_add_passed_if_sel
      foldl_add_error_col_sel)

lemma float_is_integer_frac: "float_is_integer f = zero_fraction f"
  by (cases f) (auto simp: frac_def)

lemma check_int:
  "fst (check_data_type v ''int'') =
     (spec_accepts ''int'' v \<or> python_bool v)"
  by (cases v)
    (auto simp: check_data_type_def check_body_def isinstance_def spec_accepts_def
      float_is_integer_frac split: option.splits)

lemma check_float:
  "fst (check_data_type v ''float'') =
     (spec_accepts ''float'' v \<or> python_bool v \<or> numpy_complex v)"
  by (cases v)
    (auto simp: check_data_type_def check_body_def isinstance_def spec_accepts_def
      split: option.splits)

lemma check_str: "fst (check_data_type v ''str'') = spec_accepts ''str'' v"
  by (cases v) (auto simp: check_data_type_def check_body_def isinstance_def spec_accepts_def)

lemma check_bool: "fst (check_data_type v ''bool'') = spec_accepts ''bool'' v"
  by (cases v) (auto simp: check_data_type_def check_body_def isinstance_def spec_accepts_def)

lemma check_unknown:
  "t \<noteq> ''int'' \<Longrightarrow> t \<noteq> ''float'' \<Longrightarrow> t \<noteq> ''str'' \<Longrightarrow> t \<noteq> ''bool'' \<Longrightarrow>
     check_data_type v t = (True, [''Unknown data type: '' @ t])"
  by (simp add: check_data_type_def check_body_def)

lemma check_known_log:
  "t = ''int'' \<or> t = ''float'' \<or> t = ''str'' \<or> t = ''bool'' \<Longrightarrow> snd (check_data_type v t) = []"
  by (auto simp: check_data_type_def check_body_def split: option.splits)

section \<open>What int and float accept of a text\<close>

lemma digit_not_space: "is_digit c \<Longrightarrow> \<not> num_isspace c"
  by (auto simp: is_digit_def num_isspace_def)

lemma digit_not_sign: "is_digit c \<Longrightarrow> \<not> is_sign c"
  by (auto simp: is_digit_def is_sign_def)

lemma digit_not_underscore: "is_digit c \<Longrightarrow> c \<noteq> CHR ''_''"
  by (auto simp: is_digit_def)

lemma sign_not_underscore: "is_sign c \<Longrightarrow> c \<noteq> CHR ''_''"
  by (auto simp: is_sign_def)

lemma point_is_no_digit:
  "\<not> num_isspace (CHR ''.'')" "\<not> is_sign (CHR ''.'')" "\<not> is_digit (CHR ''.'')"
  by (simp_all add: num_isspace_def is_sign_def is_digit_def)

lemma in_dropWhile: "x \<in> set xs \<Longrightarrow> \<not> Q x \<Longrightarrow> x \<in> set (dropWhile Q xs)"
  by (induction xs) auto

lemma in_num_strip: "x \<in> set s \<Longrightarrow> \<not> num_isspace x \<Longrightarrow> x \<in> set (num_strip s)"
  by (simp add: num_strip_def in_dropWhile)

lemma filter_dropWhile: "(\<And>x. Q x \<Longrightarrow> \<not> P x) \<Longrightarrow> filter P (dropWhile Q xs) = filter P xs"
  by (induction xs) auto

lemma filter_digit_num_strip: "filter is_digit (num_strip s) = filter is_digit s"
proof -
  have d: "filter is_digit (dropWhile num_isspace xs) = filter is_digit xs" for xs
    by (rule filter_dropWhile) (auto dest: digit_not_space)
  have "filter is_digit (num_strip s)
      = rev (filter is_digit (dropWhile num_isspace (rev (dropWhile num_isspace s))))"
    by (simp add: num_strip_def rev_filter)
  also have "\<dots> = rev (filter is_digit (rev (dropWhile num_isspace s)))"
    by (simp only: d)
  also have "\<dots> = filter is_digit (dropWhile num_isspace s)"
    by (simp add: rev_filter)
  finally show ?thesis
    by (simp only: d)
qed

lemma num_strip_digits:
  assumes "list_all is_digit s"
  shows "num_strip s = s"
proof (cases "s = []")
  case True
  then show ?thesis by (simp add: num_strip_def)
next
  case False
  with assms have "\<not> num_isspace (hd s)" and "\<not> num_isspace (last s)"
    by (auto simp: list_all_iff dest: digit_not_space)
  then have "dropWhile num_isspace s = s" and "dropWhile num_isspace (rev s) = rev s"
    using False by (simp_all add: dropWhile_eq_self_iff hd_rev)
  then show ?thesis
    by (simp add: num_strip_def)
qed

lemma int_digits_chars: "int_digits b \<Longrightarrow> c \<in> set b \<Longrightarrow> is_digit c \<or> c = CHR ''_''"
  by (induction b rule: int_digits.induct) (auto split: if_splits)

lemma int_digits_all: "b \<noteq> [] \<Longrightarrow> list_all is_digit b \<Longrightarrow> int_digits b"
  by (induction b rule: int_digits.induct) (auto dest: digit_not_underscore)

lemma int_digits_underscores: "int_digits b \<Longrightarrow> underscores_ok p b"
  by (induction b arbitrary: p rule: int_digits.induct) (auto dest: digit_not_underscore)

lemma int_digits_filter:
  "int_digits b \<Longrightarrow>
     filter (\<lambda>c. c \<noteq> CHR ''_'') b \<noteq> [] \<and> list_all is_digit (filter (\<lambda>c. c \<noteq> CHR ''_'') b)"
  by (induction b rule: int_digits.induct) (auto dest: digit_not_underscore split: if_splits)

lemma decimal_ok_digits:
  assumes "ds \<noteq> []" and "list_all is_digit ds"
  shows "decimal_ok ds"
proof -
  have tw: "takeWhile is_digit ds = ds" and dw: "dropWhile is_digit ds = []"
    using assms(2) by (simp_all add: list_all_iff)
  show ?thesis
    unfolding decimal_ok_def Let_def tw dw
    using assms(1) by (simp add: exponent_ok_def)
qed

lemma py_int_Some:
  "py_int s \<noteq> None \<longleftrightarrow>
     (\<exists>c cs. num_strip s = c # cs
        \<and> int_digits (if is_sign c then cs else c # cs)
        \<and> length (filter is_digit (if is_sign c then cs else c # cs)) \<le> max_str_digits)"
  by (auto simp: py_int_def Let_def split: list.splits)

lemma py_int_point: "CHR ''.'' \<in> set s \<Longrightarrow> py_int s = None"
proof (rule ccontr)
  assume p: "CHR ''.'' \<in> set s" and n: "py_int s \<noteq> None"
  from n [unfolded py_int_Some] obtain c cs where t: "num_strip s = c # cs"
    and d: "int_digits (if is_sign c then cs else c # cs)"
    by blast
  from p have "CHR ''.'' \<in> set (c # cs)"
    using in_num_strip [of "CHR ''.''" s] t by (simp add: point_is_no_digit)
  then have "CHR ''.'' \<in> set (if is_sign c then cs else c # cs)"
    using point_is_no_digit(2) by auto
  with d show False
    using int_digits_chars [of "if is_sign c then cs else c # cs" "CHR ''.''"]
    by (simp add: point_is_no_digit)
qed

lemma py_int_limit: "max_str_digits < length (filter is_digit s) \<Longrightarrow> py_int s = None"
proof (rule ccontr)
  assume m: "max_str_digits < length (filter is_digit s)" and n: "py_int s \<noteq> None"
  from n [unfolded py_int_Some] obtain c cs where t: "num_strip s = c # cs"
    and l: "length (filter is_digit (if is_sign c then cs else c # cs)) \<le> max_str_digits"
    by blast
  have "filter is_digit (c # cs) = filter is_digit (if is_sign c then cs else c # cs)"
    by (auto dest: digit_not_sign)
  then have "filter is_digit s = filter is_digit (if is_sign c then cs else c # cs)"
    using filter_digit_num_strip [of s] t by simp
  with m l show False by simp
qed

lemma py_int_digits:
  assumes "s \<noteq> []" and "list_all is_digit s" and "length s \<le> max_str_digits"
  shows "py_int s \<noteq> None"
proof -
  from assms(1) obtain c cs where s: "s = c # cs"
    by (cases s) auto
  with assms(2) have c: "\<not> is_sign c"
    by (auto dest: digit_not_sign)
  have f: "filter is_digit s = s"
    using assms(2) by (simp add: filter_id_conv list_all_iff)
  have i: "int_digits s"
    using assms(1,2) by (rule int_digits_all)
  have 1: "num_strip s = c # cs"
    using num_strip_digits [OF assms(2)] s by simp
  have 2: "int_digits (if is_sign c then cs else c # cs)"
    using i s c by simp
  have 3: "length (filter is_digit (if is_sign c then cs else c # cs)) \<le> max_str_digits"
    using f s c assms(3) by simp
  from 1 2 3 show ?thesis
    unfolding py_int_Some by blast
qed

lemma py_int_float:
  assumes "py_int s \<noteq> None"
  shows "py_float s = Some ()"
proof -
  from assms [unfolded py_int_Some] obtain c cs where t: "num_strip s = c # cs"
    and d: "int_digits (if is_sign c then cs else c # cs)"
    by blast
  let ?b = "if is_sign c then cs else c # cs"
  let ?f = "filter (\<lambda>c. c \<noteq> CHR ''_'')"
  have u: "underscores_ok (CHR 0x00) (c # cs)"
  proof (cases "is_sign c")
    case True
    with d have "underscores_ok c cs"
      by (simp add: int_digits_underscores)
    with True show ?thesis
      by (simp add: sign_not_underscore)
  next
    case False
    with d have "int_digits (c # cs)"
      by simp
    then show ?thesis
      by (rule int_digits_underscores)
  qed
  have fd: "?f ?b \<noteq> [] \<and> list_all is_digit (?f ?b)"
    using d by (rule int_digits_filter)
  have body: "(case ?f (c # cs) of [] \<Rightarrow> [] | x # xs \<Rightarrow> if is_sign x then xs else x # xs) = ?f ?b"
  proof (cases "is_sign c")
    case True
    then show ?thesis by (simp add: sign_not_underscore)
  next
    case False
    with fd obtain x xs where x: "?f (c # cs) = x # xs" and "is_digit x"
      by (cases "?f (c # cs)") auto
    then show ?thesis
      using False by (simp add: digit_not_sign)
  qed
  have "decimal_ok (?f ?b)"
    using fd by (simp add: decimal_ok_digits)
  then show ?thesis
    using t u body by (simp add: py_float_def Let_def)
qed

lemma check_text_int: "fst (check_data_type (PyStr s) ''int'') = (py_int s \<noteq> None)"
  by (auto simp: check_data_type_def check_body_def isinstance_def split: option.splits)

lemma check_text_float: "fst (check_data_type (PyStr s) ''float'') = (py_float s \<noteq> None)"
  by (auto simp: check_data_type_def check_body_def isinstance_def split: option.splits)

section \<open>C1: the type predicate and the table of the specification\<close>

text \<open>
  C1, as stated: a value passes \<open>int\<close> exactly when it is a native integer, a floating
  value with zero fractional part, or a string that parses as an integer. The claim fails
  at the Python boolean \<open>True\<close>: \<open>bool\<close> is a subclass of \<open>int\<close>, so the first test of the
  source accepts it, and the table does not list it.
\<close>

theorem type_table_counterexample:
  "fst (check_data_type (PyBool True) ''int'') \<and> \<not> spec_accepts ''int'' (PyBool True)"
  by (simp add: check_data_type_def check_body_def isinstance_def spec_accepts_def)

lemma type_predicate_general:
  "fst (check_data_type v t) =
     (spec_accepts t v \<or> (python_bool v \<and> (t = ''int'' \<or> t = ''float''))
      \<or> (numpy_complex v \<and> t = ''float''))"
proof -
  consider "t = ''int''" | "t = ''float''" | "t = ''str''" | "t = ''bool''"
    | "t \<noteq> ''int''" "t \<noteq> ''float''" "t \<noteq> ''str''" "t \<noteq> ''bool''"
    by blast
  then show ?thesis
  proof cases
    case 1 then show ?thesis by (simp add: check_int)
  next
    case 2 then show ?thesis by (simp add: check_float)
  next
    case 3 then show ?thesis by (simp add: check_str)
  next
    case 4 then show ?thesis by (simp add: check_bool)
  next
    case 5 then show ?thesis by (simp add: check_unknown spec_accepts_def)
  qed
qed

lemma type_predicate_examples:
  "fst (check_data_type (PyFloat (Fin 30)) ''int'')
   \<and> fst (check_data_type (PyStr ''30'') ''int'')
   \<and> \<not> fst (check_data_type (PyStr ''3.5'') ''int'')
   \<and> fst (check_data_type (PyStr ''3.5'') ''float'')
   \<and> \<not> fst (check_data_type (PyStr ''abc'') ''int'')
   \<and> \<not> fst (check_data_type (PyStr ''abc'') ''float'')
   \<and> fst (check_data_type (PyStr '' -1_000 '') ''int'')
   \<and> \<not> fst (check_data_type (PyStr ''1e3'') ''int'')
   \<and> fst (check_data_type (PyStr ''1e3'') ''float'')
   \<and> fst (check_data_type (PyStr ''nan'') ''float'')
   \<and> \<not> fst (check_data_type (PyStr []) ''int'')
   \<and> \<not> fst (check_data_type (PyStr []) ''float'')
   \<and> \<not> fst (check_data_type (PyStr (CHR 0x1C # ''30'')) ''int'')
   \<and> \<not> fst (check_data_type (PyStr (CHR 0x1C # ''3.5'')) ''float'')"
  by code_simp

lemma numeric_not_str:
  "(native_integer v \<or> native_floating v \<or> python_bool v \<or> numpy_complex v)
     \<and> fst (check_data_type v ''str'') \<longleftrightarrow> False"
  by (cases v) (simp_all add: check_str spec_accepts_def)

lemma text_facts:
  "(CHR ''.'' \<in> set s \<longrightarrow> \<not> fst (check_data_type (PyStr s) ''int''))
   \<and> (max_str_digits < length (filter is_digit s) \<longrightarrow> \<not> fst (check_data_type (PyStr s) ''int''))
   \<and> (s \<noteq> [] \<and> list_all is_digit s \<and> length s \<le> max_str_digits
        \<longrightarrow> fst (check_data_type (PyStr s) ''int''))
   \<and> (fst (check_data_type (PyStr s) ''int'') \<longrightarrow> fst (check_data_type (PyStr s) ''float''))"
  using py_int_point [of s] py_int_limit [of s] py_int_digits [of s] py_int_float [of s]
  by (auto simp: check_text_int check_text_float)

text \<open>
  C1, amended: the type predicate accepts a value exactly when the table of the
  specification does, or the value is a Python boolean and the expected type is \<open>int\<close> or
  \<open>float\<close>, or the value is a numpy complex number and the expected type is \<open>float\<close>. A
  string that does not parse fails the predicate: a string with a decimal point fails
  \<open>int\<close>, and so does one with more than 4300 digits; a string of 1 to 4300 decimal digits
  passes \<open>int\<close>; every string that passes \<open>int\<close> passes \<open>float\<close>. 30.0 and the string \<open>30\<close>
  pass \<open>int\<close>; the string \<open>3.5\<close> fails \<open>int\<close> and passes \<open>float\<close>; \<open>abc\<close> and the empty string
  fail both; no integer, floating value, complex number or boolean passes \<open>str\<close>.
\<close>

theorem type_predicate_table:
  "fst (check_data_type v t) =
     (spec_accepts t v \<or> (python_bool v \<and> (t = ''int'' \<or> t = ''float''))
      \<or> (numpy_complex v \<and> t = ''float''))
   \<and> (CHR ''.'' \<in> set s \<longrightarrow> \<not> fst (check_data_type (PyStr s) ''int''))
   \<and> (max_str_digits < length (filter is_digit s) \<longrightarrow> \<not> fst (check_data_type (PyStr s) ''int''))
   \<and> (s \<noteq> [] \<and> list_all is_digit s \<and> length s \<le> max_str_digits
        \<longrightarrow> fst (check_data_type (PyStr s) ''int''))
   \<and> (fst (check_data_type (PyStr s) ''int'') \<longrightarrow> fst (check_data_type (PyStr s) ''float''))
   \<and> fst (check_data_type (PyFloat (Fin 30)) ''int'')
   \<and> fst (check_data_type (PyStr ''30'') ''int'')
   \<and> \<not> fst (check_data_type (PyStr ''3.5'') ''int'')
   \<and> fst (check_data_type (PyStr ''3.5'') ''float'')
   \<and> \<not> fst (check_data_type (PyStr ''abc'') ''int'')
   \<and> \<not> fst (check_data_type (PyStr ''abc'') ''float'')
   \<and> fst (check_data_type (PyStr '' -1_000 '') ''int'')
   \<and> \<not> fst (check_data_type (PyStr ''1e3'') ''int'')
   \<and> fst (check_data_type (PyStr ''1e3'') ''float'')
   \<and> fst (check_data_type (PyStr ''nan'') ''float'')
   \<and> \<not> fst (check_data_type (PyStr []) ''int'')
   \<and> \<not> fst (check_data_type (PyStr []) ''float'')
   \<and> \<not> fst (check_data_type (PyStr (CHR 0x1C # ''30'')) ''int'')
   \<and> \<not> fst (check_data_type (PyStr (CHR 0x1C # ''3.5'')) ''float'')
   \<and> \<not> ((native_integer v \<or> native_floating v \<or> python_bool v \<or> numpy_complex v)
          \<and> fst (check_data_type v ''str''))"
  using type_predicate_general [of v t] text_facts [of s] type_predicate_examples
    numeric_not_str [of v]
  by blast

theorem type_predicate_table_witness:
  "spec_accepts ''int'' (PyFloat (Fin 30))
   \<and> fst (check_data_type (PyFloat (Fin 30)) ''int'')
   \<and> \<not> fst (check_data_type (PyStr ''3.5'') ''int'')
   \<and> fst (check_data_type (PyStr ''30'') ''int'')
   \<and> fst (check_data_type (PyStr ''30'') ''float'')
   \<and> \<not> fst (check_data_type (PyStr (replicate 4301 (CHR ''1''))) ''int'')"
proof -
  have a: "spec_accepts ''int'' (PyFloat (Fin 30))"
    by (simp add: spec_accepts_def)
  have p: "CHR ''.'' \<in> set ''3.5''"
    by simp
  have d: "''30'' \<noteq> [] \<and> list_all is_digit ''30'' \<and> length ''30'' \<le> max_str_digits"
    by (simp add: is_digit_def max_str_digits_def)
  have m: "max_str_digits < length (filter is_digit (replicate 4301 (CHR ''1'')))"
    by (simp add: is_digit_def max_str_digits_def)
  from type_predicate_table [of "PyFloat (Fin 30)" "''int''" "''3.5''"] a p
  have 1: "fst (check_data_type (PyFloat (Fin 30)) ''int'')
      \<and> \<not> fst (check_data_type (PyStr ''3.5'') ''int'')"
    by blast
  from type_predicate_table [of "PyFloat (Fin 30)" "''int''" "''30''"] d
  have 2: "fst (check_data_type (PyStr ''30'') ''int'')
      \<and> fst (check_data_type (PyStr ''30'') ''float'')"
    by blast
  from type_predicate_table [of "PyFloat (Fin 30)" "''int''" "replicate 4301 (CHR ''1'')"] m
  have 3: "\<not> fst (check_data_type (PyStr (replicate 4301 (CHR ''1''))) ''int'')"
    by blast
  from a 1 2 3 show ?thesis by blast
qed

section \<open>Findings of one column or one rule inside a result\<close>

lemma filter_concat_distinct:
  assumes "distinct (map g xs)" and "x \<in> set xs"
    and "\<And>y e. e \<in> set (f y) \<Longrightarrow> key e = g y"
  shows "filter (\<lambda>e. key e = g x) (concat (map f xs)) = f x"
  using assms(1,2)
proof (induction xs)
  case Nil
  then show ?case by simp
next
  case (Cons y ys)
  show ?case
  proof (cases "y = x")
    case True
    have "filter (\<lambda>e. key e = g x) (f x) = f x"
      using assms(3) by (simp add: filter_id_conv)
    moreover have "filter (\<lambda>e. key e = g x) (concat (map f ys)) = []"
    proof -
      have "g z \<noteq> g x" if "z \<in> set ys" for z
        using Cons.prems(1) True that by (force simp: image_iff)
      then have "\<forall>e \<in> set (concat (map f ys)). key e \<noteq> g x"
        using assms(3) by auto
      then show ?thesis by simp
    qed
    ultimately show ?thesis using True by simp
  next
    case False
    with Cons.prems have x: "x \<in> set ys" and d: "distinct (map g ys)" and ne: "g y \<noteq> g x"
      by auto
    have "filter (\<lambda>e. key e = g x) (f y) = []"
      using assms(3) ne by (auto simp: filter_empty_conv)
    with Cons.IH [OF d x] show ?thesis by simp
  qed
qed

lemma column_of_column_errors: "e \<in> set (column_errors c) \<Longrightarrow> column e = label c"
  by (auto simp: column_errors_def)

lemma column_of_column_passed: "e \<in> set (column_passed n c) \<Longrightarrow> column e = label c"
  by (auto simp: column_passed_def split: if_splits)

lemma column_of_rule_errors: "e \<in> set (rule_errors df rule) \<Longrightarrow> column e = fst rule"
  by (auto simp: rule_errors_def invalid_entry_def split: option.splits)

lemma column_of_rule_passed: "e \<in> set (rule_passed df rule) \<Longrightarrow> column e = fst rule"
  by (auto simp: rule_passed_def valid_entry_def split: option.splits)

lemma column_of_rule_warnings: "e \<in> set (rule_warnings df rule) \<Longrightarrow> column e = fst rule"
  by (auto simp: rule_warnings_def split: option.splits if_splits)

lemma errors_of_column:
  "wf_df df \<Longrightarrow> \<not> df_empty df \<Longrightarrow> c \<in> set df \<Longrightarrow>
     filter (\<lambda>e. column e = label c) (errors (detect_missing_values df)) = column_errors c"
  using filter_concat_distinct [of label df c column_errors column]
  by (simp add: detect_missing_values_eq wf_df_def df_columns_def column_of_column_errors)

lemma passed_of_column:
  "wf_df df \<Longrightarrow> \<not> df_empty df \<Longrightarrow> c \<in> set df \<Longrightarrow>
     filter (\<lambda>e. column e = label c) (passed (detect_missing_values df))
       = column_passed (len_df df) c"
  using filter_concat_distinct [of label df c "column_passed (len_df df)" column]
  by (simp add: detect_missing_values_eq wf_df_def df_columns_def column_of_column_passed)

lemma errors_of_rule:
  "distinct (map fst type_rules) \<Longrightarrow> (col, t) \<in> set type_rules \<Longrightarrow>
     filter (\<lambda>e. column e = col) (errors (fst (validate_data_types df type_rules)))
       = rule_errors df (col, t)"
  using filter_concat_distinct [of fst type_rules "(col, t)" "rule_errors df" column]
  by (simp add: validate_data_types_eq column_of_rule_errors)

lemma passed_of_rule:
  "distinct (map fst type_rules) \<Longrightarrow> (col, t) \<in> set type_rules \<Longrightarrow>
     filter (\<lambda>e. column e = col) (passed (fst (validate_data_types df type_rules)))
       = rule_passed df (col, t)"
  using filter_concat_distinct [of fst type_rules "(col, t)" "rule_passed df" column]
  by (simp add: validate_data_types_eq column_of_rule_passed)

lemma warnings_of_rule:
  "distinct (map fst type_rules) \<Longrightarrow> (col, t) \<in> set type_rules \<Longrightarrow>
     filter (\<lambda>e. column e = col) (warnings (fst (validate_data_types df type_rules)))
       = rule_warnings df (col, t)"
  using filter_concat_distinct [of fst type_rules "(col, t)" "rule_warnings df" column]
  by (simp add: validate_data_types_eq column_of_rule_warnings)

lemma in_dropna:
  "(i, v) \<in> set (dropna c) \<longleftrightarrow> i < length (cells c) \<and> cells c ! i = v \<and> \<not> isnull v"
  by (auto simp: dropna_def items_def in_set_enumerate_eq)

lemma log_of_rule_le:
  assumes "rule \<in> set type_rules"
  shows "length (filter P (rule_log df rule))
     \<le> length (filter P (snd (validate_data_types df type_rules)))"
proof -
  have "length (filter P (f x)) \<le> length (filter P (concat (map f xs)))" if "x \<in> set xs"
    for f :: "string \<times> string \<Rightarrow> string list" and x xs
    using that by (induction xs) auto
  from this [OF assms] show ?thesis
    by (simp add: validate_data_types_eq)
qed

section \<open>C10: booleans under int and float\<close>

lemma numpy_bool_checks:
  "\<not> fst (check_data_type (NpBool b) ''int'') \<and> \<not> fst (check_data_type (NpBool b) ''float'')
   \<and> fst (check_data_type (NpBool b) ''bool'')"
  by (simp add: check_data_type_def check_body_def isinstance_def)

lemma python_bool_accepted:
  "fst (check_data_type (PyBool b) ''int'') \<and> fst (check_data_type (PyBool b) ''float'')"
  by (simp add: check_data_type_def check_body_def isinstance_def)

text \<open>
  C10, as stated: every native boolean passes \<open>int\<close> and \<open>float\<close>, and a boolean cell in a
  column typed \<open>int\<close> or \<open>float\<close> gets a passed entry. It fails at the numpy boolean
  \<open>numpy.bool_(True)\<close>: the tag \<open>bool\<close> accepts it as a boolean, but it is not an instance
  of \<open>int\<close>, so \<open>int\<close> and \<open>float\<close> reject it, and in a column typed \<open>int\<close> it gets no passed
  entry.
\<close>

theorem numpy_boolean_counterexample:
  "boolean_value (NpBool True)
   \<and> fst (check_data_type (NpBool True) ''bool'')
   \<and> \<not> fst (check_data_type (NpBool True) ''int'')
   \<and> \<not> fst (check_data_type (NpBool True) ''float'')
   \<and> passed (fst (validate_data_types
        [\<lparr>label = ''flag'', dtype = ''object'', cells = [NpBool True, PyStr ''x'']\<rparr>]
        [(''flag'', ''int'')])) = []
   \<and> map row (errors (fst (validate_data_types
        [\<lparr>label = ''flag'', dtype = ''object'', cells = [NpBool True, PyStr ''x'']\<rparr>]
        [(''flag'', ''int'')]))) = [Some 0, Some 1]"
  by code_simp

text \<open>
  C10, amended: for every Python boolean \<open>b\<close> (a value of Python's type \<open>bool\<close>) the type
  predicate accepts \<open>b\<close> under \<open>int\<close> and under \<open>float\<close>; a cell that holds \<open>b\<close>, in a column
  that the rules type \<open>int\<close> or \<open>float\<close>, gets the passed entry of its row and no error. A
  numpy boolean is rejected under \<open>int\<close> and under \<open>float\<close>.
\<close>

theorem boolean_passes_int_and_float:
  assumes "distinct (map fst type_rules)" and "(col, t) \<in> set type_rules"
    and "t = ''int'' \<or> t = ''float''"
    and "df_get df col = Some c" and "i < length (cells c)" and "cells c ! i = PyBool b"
  shows "fst (check_data_type (PyBool b) ''int'') \<and> fst (check_data_type (PyBool b) ''float'')
     \<and> \<not> fst (check_data_type (NpBool b') ''int'')
     \<and> \<not> fst (check_data_type (NpBool b') ''float'')
     \<and> passed_entry (''Valid '' @ t @ '' value'') col (Some i)
         \<in> set (passed (fst (validate_data_types df type_rules)))
     \<and> filter (\<lambda>e. column e = col \<and> row e = Some i)
         (errors (fst (validate_data_types df type_rules))) = []"
proof -
  have ok: "fst (check_data_type (PyBool b) t)"
    using assms(3) python_bool_accepted [of b] by auto
  have mem: "(i, PyBool b) \<in> set (dropna c)"
    using assms(5,6) by (simp add: in_dropna)
  have "valid_entry col t (i, PyBool b) \<in> set (rule_passed df (col, t))"
    using mem ok assms(4) by (force simp: rule_passed_def)
  then have "valid_entry col t (i, PyBool b)
      \<in> set (filter (\<lambda>e. column e = col) (passed (fst (validate_data_types df type_rules))))"
    using passed_of_rule [OF assms(1,2), of df] by simp
  then have p: "passed_entry (''Valid '' @ t @ '' value'') col (Some i)
      \<in> set (passed (fst (validate_data_types df type_rules)))"
    by (simp add: valid_entry_def)
  have "filter (\<lambda>e. row e = Some i) (rule_errors df (col, t)) = []"
    using assms(4,6) ok by (auto simp: rule_errors_def filter_empty_conv invalid_entry_def in_dropna)
  then have "filter (\<lambda>e. row e = Some i)
      (filter (\<lambda>e. column e = col) (errors (fst (validate_data_types df type_rules)))) = []"
    using errors_of_rule [OF assms(1,2), of df] by simp
  then have e: "filter (\<lambda>e. column e = col \<and> row e = Some i)
      (errors (fst (validate_data_types df type_rules))) = []"
    by (simp add: conj_commute)
  from python_bool_accepted [of b] numpy_bool_checks [of b'] p e show ?thesis by simp
qed

theorem boolean_passes_int_and_float_witness:
  "passed_entry ''Valid int value'' ''flag'' (Some 1)
     \<in> set (passed (fst (validate_data_types
          [\<lparr>label = ''flag'', dtype = ''bool'', cells = [PyBool True, PyBool False]\<rparr>]
          [(''flag'', ''int'')])))
   \<and> filter (\<lambda>e. column e = ''flag'' \<and> row e = Some 1)
        (errors (fst (validate_data_types
          [\<lparr>label = ''flag'', dtype = ''bool'', cells = [PyBool True, PyBool False]\<rparr>]
          [(''flag'', ''int'')]))) = []"
  using boolean_passes_int_and_float [of "[(''flag'', ''int'')]" "''flag''" "''int''"
      "[\<lparr>label = ''flag'', dtype = ''bool'', cells = [PyBool True, PyBool False]\<rparr>]"
      "\<lparr>label = ''flag'', dtype = ''bool'', cells = [PyBool True, PyBool False]\<rparr>" 1 False]
  by (simp add: df_get_def)

section \<open>C2: the scenario of the specification\<close>

text \<open>
  The table \<open>{id: [1, 2, None], name: ["A", "B", ""]}\<close> as pandas holds it: \<open>id\<close> is a column
  of dtype \<open>float64\<close> with the cells 1.0, 2.0 and NaN, \<open>name\<close> a column of dtype \<open>object\<close>.

  C2, as stated: the type check on \<open>name\<close> gives 2 passed entries, for the rows 0 and 1.
  It fails: the passed entries of \<open>name\<close> are not those of the rows 0 and 1 only.
\<close>

theorem scenario_name_counterexample:
  "map row (filter (\<lambda>e. column e = ''name'')
     (passed (fst (validate_data_types
        [\<lparr>label = ''id'', dtype = ''float64'',
           cells = [PyFloat (Fin 1), PyFloat (Fin 2), PyFloat NaN]\<rparr>,
         \<lparr>label = ''name'', dtype = ''object'', cells = [PyStr ''A'', PyStr ''B'', PyStr []]\<rparr>]
        [(''id'', ''int''), (''name'', ''str'')]))))
   \<noteq> [Some 0, Some 1]"
  by code_simp

text \<open>
  C2, amended: for this table and these rules the type check on \<open>name\<close> gives exactly 3
  passed entries, for the rows 0, 1 and 2: the type check drops only the null cells, and
  the empty string of row 2 is a text value. (The check on \<open>id\<close> gives 2, for the rows 0 and
  1; nothing else is found.)
\<close>

theorem scenario_name_three_passed:
  "validate_data_types
     [\<lparr>label = ''id'', dtype = ''float64'',
        cells = [PyFloat (Fin 1), PyFloat (Fin 2), PyFloat NaN]\<rparr>,
      \<lparr>label = ''name'', dtype = ''object'', cells = [PyStr ''A'', PyStr ''B'', PyStr []]\<rparr>]
     [(''id'', ''int''), (''name'', ''str'')]
   = (\<lparr>source_file = [], errors = [], warnings = [],
       passed = [passed_entry ''Valid int value'' ''id'' (Some 0),
                 passed_entry ''Valid int value'' ''id'' (Some 1),
                 passed_entry ''Valid str value'' ''name'' (Some 0),
                 passed_entry ''Valid str value'' ''name'' (Some 1),
                 passed_entry ''Valid str value'' ''name'' (Some 2)]\<rparr>, [])"
  by code_simp

section \<open>C3: a type tag that is not recognised\<close>

text \<open>
  C3, as stated: for a column whose tag is none of \<open>int\<close>, \<open>float\<close>, \<open>str\<close>, \<open>bool\<close>, no entry
  is added for the cells of the column. It fails: the predicate returns \<open>True\<close>, and the
  loop adds a passed entry for every cell it accepts. Here the tag is \<open>date\<close>.
\<close>

theorem unknown_tag_counterexample:
  "validate_data_types
     [\<lparr>label = ''d'', dtype = ''object'', cells = [PyStr ''2020-01-01'', PyNone]\<rparr>]
     [(''d'', ''date'')]
   = (\<lparr>source_file = [], errors = [], warnings = [],
       passed = [passed_entry ''Valid date value'' ''d'' (Some 0)]\<rparr>,
      [''Unknown data type: date''])"
  by code_simp

text \<open>
  C3, amended: for a column of the table whose tag \<open>t\<close> in \<open>data_types\<close> is none of \<open>int\<close>,
  \<open>float\<close>, \<open>str\<close>, \<open>bool\<close>, every cell that is not null is accepted: the check adds one
  passed entry \<open>Valid t value\<close> for each such cell, in the order of the rows, adds no error
  for the column, and logs \<open>Unknown data type: t\<close> at least once for each such cell.
\<close>

theorem unknown_tag_always_passes:
  assumes "t \<noteq> ''int''" and "t \<noteq> ''float''" and "t \<noteq> ''str''" and "t \<noteq> ''bool''"
    and "distinct (map fst type_rules)" and "(col, t) \<in> set type_rules"
    and "df_get df col = Some c"
  shows "filter (\<lambda>e. column e = col) (passed (fst (validate_data_types df type_rules)))
       = map (\<lambda>iv. passed_entry (''Valid '' @ t @ '' value'') col (Some (fst iv))) (dropna c)
     \<and> filter (\<lambda>e. column e = col) (errors (fst (validate_data_types df type_rules))) = []
     \<and> length (dropna c) \<le> length (filter (\<lambda>l. l = ''Unknown data type: '' @ t)
         (snd (validate_data_types df type_rules)))"
proof -
  have chk: "check_data_type v t = (True, [''Unknown data type: '' @ t])" for v
    using assms(1-4) by (rule check_unknown)
  have "rule_passed df (col, t)
      = map (\<lambda>iv. passed_entry (''Valid '' @ t @ '' value'') col (Some (fst iv))) (dropna c)"
    using assms(7) by (simp add: rule_passed_def chk valid_entry_def)
  with passed_of_rule [OF assms(5,6), of df]
  have p: "filter (\<lambda>e. column e = col) (passed (fst (validate_data_types df type_rules)))
      = map (\<lambda>iv. passed_entry (''Valid '' @ t @ '' value'') col (Some (fst iv))) (dropna c)"
    by simp
  have "rule_errors df (col, t) = []"
    using assms(7) by (simp add: rule_errors_def chk)
  with errors_of_rule [OF assms(5,6), of df]
  have e: "filter (\<lambda>e. column e = col) (errors (fst (validate_data_types df type_rules))) = []"
    by simp
  have "rule_log df (col, t) = concat (map (\<lambda>iv. [''Unknown data type: '' @ t]) (dropna c))"
    using assms(7) by (simp add: rule_log_def chk)
  also have "\<dots> = map (\<lambda>iv. ''Unknown data type: '' @ t) (dropna c)"
    by (induction "dropna c") simp_all
  finally have "length (filter (\<lambda>l. l = ''Unknown data type: '' @ t) (rule_log df (col, t)))
      = length (dropna c)"
    by (simp add: filter_map comp_def)
  with log_of_rule_le [OF assms(6), of "\<lambda>l. l = ''Unknown data type: '' @ t" df]
  have l: "length (dropna c) \<le> length (filter (\<lambda>l. l = ''Unknown data type: '' @ t)
      (snd (validate_data_types df type_rules)))"
    by simp
  from p e l show ?thesis by simp
qed

theorem unknown_tag_always_passes_witness:
  "filter (\<lambda>e. column e = ''d'') (passed (fst (validate_data_types
       [\<lparr>label = ''d'', dtype = ''object'', cells = [PyStr ''2020-01-01'', PyNone]\<rparr>]
       [(''d'', ''date'')])))
     = [passed_entry ''Valid date value'' ''d'' (Some 0)]
   \<and> filter (\<lambda>e. column e = ''d'') (errors (fst (validate_data_types
       [\<lparr>label = ''d'', dtype = ''object'', cells = [PyStr ''2020-01-01'', PyNone]\<rparr>]
       [(''d'', ''date'')]))) = []"
  using unknown_tag_always_passes [of "''date''" "[(''d'', ''date'')]" "''d''"
      "[\<lparr>label = ''d'', dtype = ''object'', cells = [PyStr ''2020-01-01'', PyNone]\<rparr>]"
      "\<lparr>label = ''d'', dtype = ''object'', cells = [PyStr ''2020-01-01'', PyNone]\<rparr>"]
  by (simp add: df_get_def dropna_def items_def)

section \<open>Running the checks on a file\<close>

lemma validate_file_loaded:
  "path_exists e p \<Longrightarrow> load_table e p = Inr df \<Longrightarrow>
     validate_file e p rs = Inr (run_checks e p rs df)"
  by (simp add: validate_file_def)

lemma run_checks_empty:
  "df_empty df \<Longrightarrow> run_checks e p rs df =
     (\<lparr>source_file = p, errors = [],
       warnings = [warning_entry ''File contains no data'' [] None None], passed = []\<rparr>, [])"
  by (simp add: run_checks_def new_result_def add_warning_def)

lemma run_checks_sel:
  assumes "\<not> df_empty df"
  shows "errors (fst (run_checks e p rs df)) = errors (required_pass e p rs df)
       @ errors (detect_missing_values df) @ errors (type_pass rs df)"
    and "warnings (fst (run_checks e p rs df)) = warnings (required_pass e p rs df)
       @ warnings (detect_missing_values df) @ warnings (type_pass rs df)"
    and "passed (fst (run_checks e p rs df)) = passed (required_pass e p rs df)
       @ passed (detect_missing_values df) @ passed (type_pass rs df)"
    and "source_file (fst (run_checks e p rs df)) = p"
  using assms
  by (simp_all add: run_checks_def Let_def required_pass_def type_pass_def
      validate_required_columns_sel split: option.split)

section \<open>C4: a table with no rows\<close>

text \<open>
  C4: for every table with zero rows and every rule configuration, \<open>validate_file\<close> returns
  a result with exactly one warning, \<open>File contains no data\<close> with the empty column name,
  no error and no passed entry; no check has run, and nothing is logged.
\<close>

theorem no_rows_one_warning:
  assumes "path_exists e p" and "load_table e p = Inr df" and "len_df df = 0"
  shows "validate_file e p rs =
     Inr (\<lparr>source_file = p, errors = [],
           warnings = [warning_entry ''File contains no data'' [] None None],
           passed = []\<rparr>, [])"
  using assms by (simp add: validate_file_loaded run_checks_empty df_empty_def)

theorem no_rows_one_warning_witness:
  "validate_file
     \<lparr>path_exists = (\<lambda>p. True), read_excel = (\<lambda>p. Inl ''no sheet''),
      read_csv = (\<lambda>p. Inr [\<lparr>label = ''a'', dtype = ''object'', cells = []\<rparr>]),
      set_order = (\<lambda>xs. xs)\<rparr>
     ''t.csv''
     \<lparr>required_columns = Some [''a'', ''b''], data_types = Some [(''a'', ''int'')]\<rparr>
   = Inr (\<lparr>source_file = ''t.csv'', errors = [],
           warnings = [warning_entry ''File contains no data'' [] None None],
           passed = []\<rparr>, [])"
  using no_rows_one_warning [of
      "\<lparr>path_exists = (\<lambda>p. True), read_excel = (\<lambda>p. Inl ''no sheet''),
        read_csv = (\<lambda>p. Inr [\<lparr>label = ''a'', dtype = ''object'', cells = []\<rparr>]),
        set_order = (\<lambda>xs. xs)\<rparr>"
      "''t.csv''" "[\<lparr>label = ''a'', dtype = ''object'', cells = []\<rparr>]"
      "\<lparr>required_columns = Some [''a'', ''b''], data_types = Some [(''a'', ''int'')]\<rparr>"]
  by (simp add: load_table_def endswith_def len_df_def)

section \<open>C8: the failures of a run\<close>



section \<open>C5: a null cell\<close>

lemma wf_df_nonempty:
  "wf_df df \<Longrightarrow> c \<in> set df \<Longrightarrow> i < length (cells c) \<Longrightarrow> \<not> df_empty df"
  by (auto simp: wf_df_def df_empty_def list_all_iff)

lemma wf_df_length: "wf_df df \<Longrightarrow> c \<in> set df \<Longrightarrow> length (cells c) = len_df df"
  by (simp add: wf_df_def list_all_iff)

lemma null_row_filter:
  "filter (\<lambda>j. j = i) (null_indices c) = (if i < length (cells c) \<and> isnull (cells c ! i) then [i] else [])"
  by (simp only: null_indices_upt filter_eq_filter_upt)

lemma empty_row_filter:
  assumes "isnull (cells c ! i)"
  shows "filter (\<lambda>j. j = i) (empty_indices c) = []"
proof (cases "dtype c = ''object''")
  case True
  then have "empty_indices c
      = filter (\<lambda>i. str_is_blank (cells c ! i) \<and> \<not> isnull (cells c ! i)) [0..<length (cells c)]"
    by (simp add: empty_indices_upt)
  then have "filter (\<lambda>j. j = i) (empty_indices c)
      = (if i < length (cells c) \<and> (str_is_blank (cells c ! i) \<and> \<not> isnull (cells c ! i))
         then [i] else [])"
    by (simp only: filter_eq_filter_upt)
  with assms show ?thesis by simp
next
  case False
  then show ?thesis by (simp add: empty_indices_upt)
qed

text \<open>
  C5: for every cell whose value is null, the missing-value check reports exactly one
  error at its column and row, with the message \<open>Missing value (null/NaN)\<close>; the cell gets
  no \<open>Missing value (empty string)\<close> error.
\<close>

theorem null_cell_one_error:
  assumes "wf_df df" and "c \<in> set df" and "i < length (cells c)" and "isnull (cells c ! i)"
  shows "filter (\<lambda>e. column e = label c \<and> row e = Some i) (errors (detect_missing_values df))
     = [error_entry ''Missing value (null/NaN)'' (label c) (Some i) None]"
proof -
  have ne: "\<not> df_empty df"
    using assms(1-3) by (rule wf_df_nonempty)
  have "filter (\<lambda>e. column e = label c \<and> row e = Some i) (errors (detect_missing_values df))
      = filter (\<lambda>e. row e = Some i)
          (filter (\<lambda>e. column e = label c) (errors (detect_missing_values df)))"
    by (simp add: conj_commute)
  also have "\<dots> = filter (\<lambda>e. row e = Some i) (column_errors c)"
    using assms(1,2) ne by (simp add: errors_of_column)
  also have "\<dots> = [error_entry ''Missing value (null/NaN)'' (label c) (Some i) None]"
    using assms(3,4)
    by (simp add: column_errors_def filter_map comp_def null_row_filter empty_row_filter)
  finally show ?thesis .
qed

theorem null_cell_one_error_witness:
  "filter (\<lambda>e. column e = ''id'' \<and> row e = Some 2) (errors (detect_missing_values
     [\<lparr>label = ''id'', dtype = ''float64'',
        cells = [PyFloat (Fin 1), PyFloat (Fin 2), PyFloat NaN]\<rparr>,
      \<lparr>label = ''name'', dtype = ''object'', cells = [PyStr ''A'', PyStr ''B'', PyStr []]\<rparr>]))
   = [error_entry ''Missing value (null/NaN)'' ''id'' (Some 2) None]"
  using null_cell_one_error [of
      "[\<lparr>label = ''id'', dtype = ''float64'',
          cells = [PyFloat (Fin 1), PyFloat (Fin 2), PyFloat NaN]\<rparr>,
        \<lparr>label = ''name'', dtype = ''object'', cells = [PyStr ''A'', PyStr ''B'', PyStr []]\<rparr>]"
      "\<lparr>label = ''id'', dtype = ''float64'',
         cells = [PyFloat (Fin 1), PyFloat (Fin 2), PyFloat NaN]\<rparr>" 2]
  by (simp add: wf_df_def df_columns_def len_df_def)

section \<open>C9: the counts of the missing-value check\<close>

lemma length_filter_disjoint:
  "length (filter P xs) + length (filter (\<lambda>x. Q x \<and> \<not> P x) xs) \<le> length xs"
  by (induction xs) auto

lemma null_empty_le: "length (null_indices c) + length (empty_indices c) \<le> length (cells c)"
  using length_filter_disjoint [of "\<lambda>i. isnull (cells c ! i)" "[0..<length (cells c)]"
      "\<lambda>i. str_is_blank (cells c ! i)"]
  by (simp add: null_indices_upt empty_indices_upt)

lemma null_errors_of_column:
  "filter (\<lambda>e. message e = ''Missing value (null/NaN)'') (column_errors c)
     = map (\<lambda>i. error_entry ''Missing value (null/NaN)'' (label c) (Some i) None) (null_indices c)"
  by (simp add: column_errors_def filter_map comp_def)

lemma empty_errors_of_column:
  "filter (\<lambda>e. message e = ''Missing value (empty string)'') (column_errors c)
     = map (\<lambda>i. error_entry ''Missing value (empty string)'' (label c) (Some i) None)
         (empty_indices c)"
  by (simp add: column_errors_def filter_map comp_def)

text \<open>
  C9: for every column of a table that is not empty there is a number \<open>N\<close> such that \<open>N\<close>
  plus the number of null errors of the column plus the number of empty-string errors of
  the column is the number of rows, and the passed entries of the column in the
  missing-value check are the one entry \<open>N valid values\<close> when \<open>N > 0\<close>, and none otherwise.
\<close>

theorem missing_counts_add_up:
  assumes "wf_df df" and "\<not> df_empty df" and "c \<in> set df"
  shows "\<exists>N. N
       + length (filter (\<lambda>e. column e = label c \<and> message e = ''Missing value (null/NaN)'')
           (errors (detect_missing_values df)))
       + length (filter (\<lambda>e. column e = label c \<and> message e = ''Missing value (empty string)'')
           (errors (detect_missing_values df)))
       = len_df df
     \<and> filter (\<lambda>e. column e = label c) (passed (detect_missing_values df))
       = (if N > 0 then [passed_entry (str_int (int N) @ '' valid values'') (label c) None]
          else [])"
proof -
  let ?E = "errors (detect_missing_values df)"
  have split: "filter (\<lambda>e. column e = label c \<and> message e = m) ?E
      = filter (\<lambda>e. message e = m) (column_errors c)" for m
  proof -
    have "filter (\<lambda>e. column e = label c \<and> message e = m) ?E
        = filter (\<lambda>e. message e = m) (filter (\<lambda>e. column e = label c) ?E)"
      by (simp add: conj_commute)
    then show ?thesis
      using assms by (simp add: errors_of_column)
  qed
  have n: "length (filter (\<lambda>e. column e = label c \<and> message e = ''Missing value (null/NaN)'') ?E)
      = length (null_indices c)"
    by (simp only: split null_errors_of_column length_map)
  have m: "length (filter (\<lambda>e. column e = label c \<and> message e = ''Missing value (empty string)'') ?E)
      = length (empty_indices c)"
    by (simp only: split empty_errors_of_column length_map)
  define N where "N = len_df df - length (null_indices c) - length (empty_indices c)"
  have le: "length (null_indices c) + length (empty_indices c) \<le> len_df df"
    using null_empty_le [of c] wf_df_length [OF assms(1,3)] by simp
  then have sum: "N + length (null_indices c) + length (empty_indices c) = len_df df"
    by (simp add: N_def)
  have vc: "column_valid_count (len_df df) c = int N"
    using le by (simp add: column_valid_count_def N_def)
  have "filter (\<lambda>e. column e = label c) (passed (detect_missing_values df))
      = column_passed (len_df df) c"
    using assms by (rule passed_of_column)
  also have "\<dots> = (if N > 0 then [passed_entry (str_int (int N) @ '' valid values'') (label c) None]
      else [])"
    by (simp add: column_passed_def vc)
  finally show ?thesis
    using sum n m by auto
qed

theorem missing_counts_add_up_witness:
  "(\<exists>N. N
       + length (filter (\<lambda>e. column e = ''name'' \<and> message e = ''Missing value (null/NaN)'')
           (errors (detect_missing_values
              [\<lparr>label = ''name'', dtype = ''object'',
                 cells = [PyStr ''A'', PyNone, PyStr []]\<rparr>])))
       + length (filter (\<lambda>e. column e = ''name'' \<and> message e = ''Missing value (empty string)'')
           (errors (detect_missing_values
              [\<lparr>label = ''name'', dtype = ''object'',
                 cells = [PyStr ''A'', PyNone, PyStr []]\<rparr>])))
       = 3
     \<and> filter (\<lambda>e. column e = ''name'') (passed (detect_missing_values
              [\<lparr>label = ''name'', dtype = ''object'',
                 cells = [PyStr ''A'', PyNone, PyStr []]\<rparr>]))
       = (if N > 0 then [passed_entry (str_int (int N) @ '' valid values'') ''name'' None]
          else []))
   \<and> detect_missing_values
        [\<lparr>label = ''name'', dtype = ''object'', cells = [PyStr ''A'', PyNone, PyStr []]\<rparr>]
     = \<lparr>source_file = [],
        errors = [error_entry ''Missing value (null/NaN)'' ''name'' (Some 1) None,
                  error_entry ''Missing value (empty string)'' ''name'' (Some 2) None],
        warnings = [],
        passed = [passed_entry ''1 valid values'' ''name'' None]\<rparr>"
proof -
  let ?c = "\<lparr>label = ''name'', dtype = ''object'', cells = [PyStr ''A'', PyNone, PyStr []]\<rparr>"
  have wf: "wf_df [?c]"
    by (simp add: wf_df_def df_columns_def len_df_def)
  have ne: "\<not> df_empty [?c]"
    by (simp add: df_empty_def len_df_def)
  have len: "len_df [?c] = 3"
    by (simp add: len_df_def)
  have ev: "detect_missing_values [?c]
     = \<lparr>source_file = [],
        errors = [error_entry ''Missing value (null/NaN)'' ''name'' (Some 1) None,
                  error_entry ''Missing value (empty string)'' ''name'' (Some 2) None],
        warnings = [],
        passed = [passed_entry ''1 valid values'' ''name'' None]\<rparr>"
    by code_simp
  from missing_counts_add_up [OF wf ne, of ?c]
  have "\<exists>N. N
       + length (filter (\<lambda>e. column e = ''name'' \<and> message e = ''Missing value (null/NaN)'')
           (errors (detect_missing_values [?c])))
       + length (filter (\<lambda>e. column e = ''name'' \<and> message e = ''Missing value (empty string)'')
           (errors (detect_missing_values [?c])))
       = 3
     \<and> filter (\<lambda>e. column e = ''name'') (passed (detect_missing_values [?c]))
       = (if N > 0 then [passed_entry (str_int (int N) @ '' valid values'') ''name'' None]
          else [])"
    by (simp only: len series.simps list.set insertI1 simp_thms)
  from this ev show ?thesis
    by (rule conjI)
qed

section \<open>C7: required columns\<close>

lemma filter_eq_distinct:
  "distinct xs \<Longrightarrow> x \<in> set xs \<Longrightarrow> filter (\<lambda>c. c = x) xs = [x]"
proof (induction xs)
  case Nil
  then show ?case by simp
next
  case (Cons a xs)
  then show ?case by (cases "a = x") (auto simp: filter_empty_conv)
qed

text \<open>
  C7: when the iteration over a Python set yields each of its elements once, then for every
  list of required columns and every table: the passed entries are one \<open>Required column
  present\<close> for each required name that is a column of the table, in the order of
  \<open>required_columns\<close>; each required name that is not a column of the table has exactly
  one error, \<open>Required column missing\<close> with that column name and no row; and every error
  is such an error for a required name that the table lacks.
\<close>

theorem required_columns_findings:
  assumes "\<forall>xs. distinct xs \<longrightarrow> distinct (order xs) \<and> set (order xs) = set xs"
  shows "passed (validate_required_columns order df required (new_result src))
       = map (\<lambda>c. passed_entry ''Required column present'' c None)
           (filter (\<lambda>c. c \<in> set (df_columns df)) required)
     \<and> (\<forall>name \<in> set required. name \<notin> set (df_columns df) \<longrightarrow>
          filter (\<lambda>e. column e = name)
            (errors (validate_required_columns order df required (new_result src)))
          = [error_entry ''Required column missing'' name None None])
     \<and> (\<forall>e \<in> set (errors (validate_required_columns order df required (new_result src))).
          message e = ''Required column missing'' \<and> row e = None \<and> severity e = ''error''
          \<and> column e \<in> set required \<and> column e \<notin> set (df_columns df))
     \<and> warnings (validate_required_columns order df required (new_result src)) = []"
proof -
  let ?m = "remdups (filter (\<lambda>c. c \<notin> set (df_columns df)) required)"
  have d: "distinct (order ?m)" and s: "set (order ?m) = set ?m"
    using assms by simp_all
  have one: "filter (\<lambda>c. c = name) (order ?m) = [name]" if "name \<in> set (order ?m)" for name
    using d that by (rule filter_eq_distinct)
  have err: "filter (\<lambda>e. column e = name)
      (errors (validate_required_columns order df required (new_result src)))
      = [error_entry ''Required column missing'' name None None]"
    if "name \<in> set required" and "name \<notin> set (df_columns df)" for name
  proof -
    have "name \<in> set (order ?m)"
      using that s by simp
    then show ?thesis
      by (simp add: validate_required_columns_sel filter_map comp_def one)
  qed
  show ?thesis
    using err s by (auto simp: validate_required_columns_sel)
qed

theorem required_columns_findings_witness:
  "passed (validate_required_columns (\<lambda>xs. xs)
       [\<lparr>label = ''a'', dtype = ''int64'', cells = [PyInt 1]\<rparr>] [''a'', ''b''] (new_result ''t.csv''))
     = [passed_entry ''Required column present'' ''a'' None]
   \<and> errors (validate_required_columns (\<lambda>xs. xs)
       [\<lparr>label = ''a'', dtype = ''int64'', cells = [PyInt 1]\<rparr>] [''a'', ''b''] (new_result ''t.csv''))
     = [error_entry ''Required column missing'' ''b'' None None]
   \<and> filter (\<lambda>e. column e = ''b'') (errors (validate_required_columns (\<lambda>xs. xs)
       [\<lparr>label = ''a'', dtype = ''int64'', cells = [PyInt 1]\<rparr>] [''a'', ''b''] (new_result ''t.csv'')))
     = [error_entry ''Required column missing'' ''b'' None None]"
proof -
  have ord: "\<forall>xs::string list. distinct xs \<longrightarrow> distinct ((\<lambda>xs. xs) xs) \<and> set ((\<lambda>xs. xs) xs) = set xs"
    by simp
  have ev: "errors (validate_required_columns (\<lambda>xs. xs)
       [\<lparr>label = ''a'', dtype = ''int64'', cells = [PyInt 1]\<rparr>] [''a'', ''b''] (new_result ''t.csv''))
     = [error_entry ''Required column missing'' ''b'' None None]"
    by code_simp
  from required_columns_findings [OF ord,
      of "[\<lparr>label = ''a'', dtype = ''int64'', cells = [PyInt 1]\<rparr>]" "[''a'', ''b'']" "''t.csv''"]
  show ?thesis
    using ev by (simp add: df_columns_def)
qed

section \<open>C6: the order of the findings\<close>

text \<open>
  C6, as stated: within one pass and one column the findings are in the order of the rows.
  It fails in the missing-value check: the loop over a column first reports all null cells
  and then all empty-string cells. In a column that holds a blank string in row 0 and a
  null in row 1 (the table of a CSV file with the lines \<open>x,y\<close>, \<open> ,1\<close> and \<open>,2\<close>), the
  error of row 1 comes before the error of row 0.
\<close>

theorem row_order_counterexample:
  "validate_file
     \<lparr>path_exists = (\<lambda>p. True), read_excel = (\<lambda>p. Inl ''not a workbook''),
      read_csv = (\<lambda>p. Inr [\<lparr>label = ''x'', dtype = ''object'', cells = [PyStr '' '', PyFloat NaN]\<rparr>,
         \<lparr>label = ''y'', dtype = ''int64'', cells = [PyInt 1, PyInt 2]\<rparr>]),
      set_order = (\<lambda>xs. xs)\<rparr>
     ''t.csv'' \<lparr>required_columns = None, data_types = None\<rparr>
   = Inr (\<lparr>source_file = ''t.csv'',
           errors = [error_entry ''Missing value (null/NaN)'' ''x'' (Some 1) None,
                     error_entry ''Missing value (empty string)'' ''x'' (Some 0) None],
           warnings = [], passed = [passed_entry ''2 valid values'' ''y'' None]\<rparr>, [])"
  by code_simp

text \<open>
  C6, amended: in every result that \<open>validate_file\<close> returns for a table that is not empty,
  each of the lists of errors, of warnings and of passed entries holds the findings of the
  required-column check, then those of the missing-value check, then those of the
  type-conformance check. The findings of the missing-value check are grouped by column, in
  the order of the table's columns; the errors of one column are its null errors, in the
  order of the rows, followed by its empty-string errors, in the order of the rows. The
  findings of the type-conformance check are grouped by rule, in the order of
  \<open>data_types\<close>, and those of one rule are in the order of the rows. The passed entries
  of the required-column check follow the order of \<open>required_columns\<close>.
\<close>

theorem findings_order:
  assumes "path_exists e p" and "load_table e p = Inr df" and "\<not> df_empty df"
  shows "validate_file e p rs = Inr (run_checks e p rs df)
     \<and> errors (fst (run_checks e p rs df)) = errors (required_pass e p rs df)
         @ errors (detect_missing_values df) @ errors (type_pass rs df)
     \<and> warnings (fst (run_checks e p rs df)) = warnings (required_pass e p rs df)
         @ warnings (detect_missing_values df) @ warnings (type_pass rs df)
     \<and> passed (fst (run_checks e p rs df)) = passed (required_pass e p rs df)
         @ passed (detect_missing_values df) @ passed (type_pass rs df)
     \<and> errors (detect_missing_values df) = concat (map column_errors df)
     \<and> warnings (detect_missing_values df) = []
     \<and> passed (detect_missing_values df) = concat (map (column_passed (len_df df)) df)
     \<and> column_errors c =
         map (\<lambda>i. error_entry ''Missing value (null/NaN)'' (label c) (Some i) None)
           (null_indices c)
         @ map (\<lambda>i. error_entry ''Missing value (empty string)'' (label c) (Some i) None)
           (empty_indices c)
     \<and> sorted_wrt (<) (null_indices c) \<and> sorted_wrt (<) (empty_indices c)
     \<and> errors (type_pass rs df)
         = concat (map (rule_errors df) (case data_types rs of None \<Rightarrow> [] | Some tr \<Rightarrow> tr))
     \<and> warnings (type_pass rs df)
         = concat (map (rule_warnings df) (case data_types rs of None \<Rightarrow> [] | Some tr \<Rightarrow> tr))
     \<and> passed (type_pass rs df)
         = concat (map (rule_passed df) (case data_types rs of None \<Rightarrow> [] | Some tr \<Rightarrow> tr))
     \<and> map row (rule_errors df (label c, t))
         = (case df_get df (label c) of None \<Rightarrow> [None]
            | Some c' \<Rightarrow> map (\<lambda>iv. Some (fst iv))
                (filter (\<lambda>iv. \<not> fst (check_data_type (snd iv) t)) (dropna c')))
     \<and> map row (rule_passed df (label c, t))
         = (case df_get df (label c) of None \<Rightarrow> []
            | Some c' \<Rightarrow> map (\<lambda>iv. Some (fst iv))
                (filter (\<lambda>iv. fst (check_data_type (snd iv) t)) (dropna c')))
     \<and> sorted_wrt (<) (map fst (dropna c))
     \<and> passed (required_pass e p rs df)
         = map (\<lambda>c. passed_entry ''Required column present'' c None)
             (filter (\<lambda>c. c \<in> set (df_columns df))
               (case required_columns rs of None \<Rightarrow> [] | Some required \<Rightarrow> required))"
proof -
  have a: "validate_file e p rs = Inr (run_checks e p rs df)"
    using assms(1,2) by (rule validate_file_loaded)
  note b = run_checks_sel(1-3) [OF assms(3), of e p rs]
  have m: "errors (detect_missing_values df) = concat (map column_errors df)"
    "warnings (detect_missing_values df) = []"
    "passed (detect_missing_values df) = concat (map (column_passed (len_df df)) df)"
    using assms(3) by (simp_all add: detect_missing_values_eq)
  have t: "errors (type_pass rs df)
        = concat (map (rule_errors df) (case data_types rs of None \<Rightarrow> [] | Some tr \<Rightarrow> tr))"
    "warnings (type_pass rs df)
        = concat (map (rule_warnings df) (case data_types rs of None \<Rightarrow> [] | Some tr \<Rightarrow> tr))"
    "passed (type_pass rs df)
        = concat (map (rule_passed df) (case data_types rs of None \<Rightarrow> [] | Some tr \<Rightarrow> tr))"
    by (simp_all add: type_pass_def validate_data_types_eq split: option.split)
  have r: "map row (rule_errors df (label c, t))
         = (case df_get df (label c) of None \<Rightarrow> [None]
            | Some c' \<Rightarrow> map (\<lambda>iv. Some (fst iv))
                (filter (\<lambda>iv. \<not> fst (check_data_type (snd iv) t)) (dropna c')))"
    "map row (rule_passed df (label c, t))
         = (case df_get df (label c) of None \<Rightarrow> []
            | Some c' \<Rightarrow> map (\<lambda>iv. Some (fst iv))
                (filter (\<lambda>iv. fst (check_data_type (snd iv) t)) (dropna c')))"
    by (simp_all add: rule_errors_def rule_passed_def invalid_entry_def valid_entry_def comp_def
        split: option.split)
  have q: "passed (required_pass e p rs df)
         = map (\<lambda>c. passed_entry ''Required column present'' c None)
             (filter (\<lambda>c. c \<in> set (df_columns df))
               (case required_columns rs of None \<Rightarrow> [] | Some required \<Rightarrow> required))"
    by (simp add: required_pass_def validate_required_columns_sel split: option.split)
  show ?thesis
    using a b m t r q sorted_null_indices [of c] sorted_empty_indices [of c] sorted_dropna [of c]
    by (simp only: column_errors_def simp_thms)
qed

theorem findings_order_witness:
  "errors (fst (run_checks
       \<lparr>path_exists = (\<lambda>p. True), read_excel = (\<lambda>p. Inl ''not a workbook''),
        read_csv = (\<lambda>p. Inr [\<lparr>label = ''x'', dtype = ''object'', cells = [PyStr '' '', PyFloat NaN]\<rparr>,
         \<lparr>label = ''y'', dtype = ''int64'', cells = [PyInt 1, PyInt 2]\<rparr>]),
        set_order = (\<lambda>xs. xs)\<rparr>
       ''t.csv'' \<lparr>required_columns = Some [''z''], data_types = Some [(''x'', ''int'')]\<rparr>
       [\<lparr>label = ''x'', dtype = ''object'', cells = [PyStr '' '', PyFloat NaN]\<rparr>,
         \<lparr>label = ''y'', dtype = ''int64'', cells = [PyInt 1, PyInt 2]\<rparr>]))
   = [error_entry ''Required column missing'' ''z'' None None,
      error_entry ''Missing value (null/NaN)'' ''x'' (Some 1) None,
      error_entry ''Missing value (empty string)'' ''x'' (Some 0) None,
      error_entry ''Invalid data type. Expected int, got str'' ''x'' (Some 0) (Some (PyStr '' ''))]"
proof -
  let ?df = "[\<lparr>label = ''x'', dtype = ''object'', cells = [PyStr '' '', PyFloat NaN]\<rparr>,
         \<lparr>label = ''y'', dtype = ''int64'', cells = [PyInt 1, PyInt 2]\<rparr>]"
  let ?e = "\<lparr>path_exists = (\<lambda>p. True), read_excel = (\<lambda>p. Inl ''not a workbook''),
        read_csv = (\<lambda>p. Inr ?df), set_order = (\<lambda>xs. xs)\<rparr>"
  let ?rs = "\<lparr>required_columns = Some [''z''], data_types = Some [(''x'', ''int'')]\<rparr>"
  have 1: "path_exists ?e ''t.csv''" by simp
  have 2: "load_table ?e ''t.csv'' = Inr ?df" by (simp add: load_table_def endswith_def)
  have 3: "\<not> df_empty ?df" by (simp add: df_empty_def len_df_def)
  have r: "errors (required_pass ?e ''t.csv'' ?rs ?df)
      = [error_entry ''Required column missing'' ''z'' None None]"
    by code_simp
  have m: "errors (detect_missing_values ?df)
      = [error_entry ''Missing value (null/NaN)'' ''x'' (Some 1) None,
         error_entry ''Missing value (empty string)'' ''x'' (Some 0) None]"
    by code_simp
  have t: "errors (type_pass ?rs ?df)
      = [error_entry ''Invalid data type. Expected int, got str'' ''x'' (Some 0) (Some (PyStr '' ''))]"
    by code_simp
  from findings_order [OF 1 2 3, of ?rs]
  have "errors (fst (run_checks ?e ''t.csv'' ?rs ?df)) = errors (required_pass ?e ''t.csv'' ?rs ?df)
         @ errors (detect_missing_values ?df) @ errors (type_pass ?rs ?df)"
    by blast
  then show ?thesis
    by (simp only: r m t append.simps)
qed

end
